theory Spec2Isabelle
  imports Complex_Main "HOL-Library.Monad_Syntax"
begin

section \<open>Numeric values\<close>

text \<open>
  The task computes with C++ \<open>float\<close> and \<open>double\<close>, the formats binary32 and binary64
  of IEEE 754. A value of either type is a real number or one of the special values
  negative zero, plus infinity, minus infinity and NaN; \<open>Fin 0\<close> is the positive zero.
  Every float is also a double, so one type holds both.
\<close>

datatype fl = Fin real | NegZero | PInf | MInf | NaN

fun signbit :: "fl \<Rightarrow> bool" where
  "signbit (Fin r) = (r < 0)"
| "signbit NegZero = True"
| "signbit PInf = False"
| "signbit MInf = True"
| "signbit NaN = False"

fun fl_finite :: "fl \<Rightarrow> bool" where
  "fl_finite (Fin r) = True"
| "fl_finite NegZero = True"
| "fl_finite PInf = False"
| "fl_finite MInf = False"
| "fl_finite NaN = False"

fun fl_val :: "fl \<Rightarrow> real" where
  "fl_val (Fin r) = r"
| "fl_val NegZero = 0"
| "fl_val PInf = 0"
| "fl_val MInf = 0"
| "fl_val NaN = 0"

definition fl_iszero :: "fl \<Rightarrow> bool" where
  "fl_iszero x = (x = Fin 0 \<or> x = NegZero)"

definition mk_zero :: "bool \<Rightarrow> fl" where
  "mk_zero neg = (if neg then NegZero else Fin 0)"

definition mk_inf :: "bool \<Rightarrow> fl" where
  "mk_inf neg = (if neg then MInf else PInf)"

definition mk_fin :: "bool \<Rightarrow> real \<Rightarrow> fl" where
  "mk_fin neg r = (if r = 0 then mk_zero neg else Fin r)"

fun fl_neg :: "fl \<Rightarrow> fl" where
  "fl_neg (Fin r) = (if r = 0 then NegZero else Fin (- r))"
| "fl_neg NegZero = Fin 0"
| "fl_neg PInf = MInf"
| "fl_neg MInf = PInf"
| "fl_neg NaN = NaN"

text \<open>\<open>std::abs\<close>, \<open>fabs\<close>, \<open>TMath::Abs\<close>: the sign bit is cleared.\<close>

fun fl_abs :: "fl \<Rightarrow> fl" where
  "fl_abs (Fin r) = Fin \<bar>r\<bar>"
| "fl_abs NegZero = Fin 0"
| "fl_abs PInf = PInf"
| "fl_abs MInf = PInf"
| "fl_abs NaN = NaN"

text \<open>
  The results of the arithmetic operations before rounding, with the rules for zeros,
  infinities and NaN. A machine operation is one of these followed by the rounding of its
  format.
\<close>

definition exact_add :: "fl \<Rightarrow> fl \<Rightarrow> fl" where
  "exact_add x y =
     (if x = NaN \<or> y = NaN then NaN
      else if fl_finite x \<and> fl_finite y then
        (if fl_val x + fl_val y = 0 then mk_zero (signbit x \<and> signbit y)
         else Fin (fl_val x + fl_val y))
      else if fl_finite y then x
      else if fl_finite x then y
      else if x = y then x
      else NaN)"

definition exact_sub :: "fl \<Rightarrow> fl \<Rightarrow> fl" where
  "exact_sub x y = exact_add x (fl_neg y)"

definition exact_mult :: "fl \<Rightarrow> fl \<Rightarrow> fl" where
  "exact_mult x y =
     (if x = NaN \<or> y = NaN then NaN
      else if fl_finite x \<and> fl_finite y then
        mk_fin (signbit x \<noteq> signbit y) (fl_val x * fl_val y)
      else if fl_iszero x \<or> fl_iszero y then NaN
      else mk_inf (signbit x \<noteq> signbit y))"

text \<open>
  Division never traps: a nonzero value over a zero is an infinity whose sign is the
  exclusive or of the two sign bits, and zero over zero is NaN.
\<close>

definition exact_div :: "fl \<Rightarrow> fl \<Rightarrow> fl" where
  "exact_div x y =
     (if x = NaN \<or> y = NaN then NaN
      else if fl_finite x \<and> fl_finite y then
        (if fl_iszero y then
           (if fl_iszero x then NaN else mk_inf (signbit x \<noteq> signbit y))
         else mk_fin (signbit x \<noteq> signbit y) (fl_val x / fl_val y))
      else if fl_finite y then mk_inf (signbit x \<noteq> signbit y)
      else if fl_finite x then mk_zero (signbit x \<noteq> signbit y)
      else NaN)"

text \<open>Every comparison with a NaN operand is false; the two zeros compare equal.\<close>

definition fl_less :: "fl \<Rightarrow> fl \<Rightarrow> bool" where
  "fl_less x y =
     (if x = NaN \<or> y = NaN then False
      else if x = MInf then y \<noteq> MInf
      else if y = MInf then False
      else if y = PInf then x \<noteq> PInf
      else if x = PInf then False
      else fl_val x < fl_val y)"

definition fl_greater :: "fl \<Rightarrow> fl \<Rightarrow> bool" where
  "fl_greater x y = fl_less y x"

definition fl_ge :: "fl \<Rightarrow> fl \<Rightarrow> bool" where
  "fl_ge x y = (x \<noteq> NaN \<and> y \<noteq> NaN \<and> \<not> fl_less x y)"

subsection \<open>Rounding\<close>

text \<open>
  The exponent of a positive real: the integer \<open>e\<close> with \<open>2^e \<le> x < 2^(e+1)\<close>,
  found by halving or doubling.
\<close>

function ilog2 :: "real \<Rightarrow> int" where
  "ilog2 x = (if 2 \<le> x then ilog2 (x / 2) + 1
              else if 0 < x \<and> x < 1 then ilog2 (2 * x) - 1
              else 0)"
  by pat_completeness auto
termination
proof (relation "measure (\<lambda>x. nat \<bar>\<lfloor>log 2 x\<rfloor>\<bar>)")
  show "wf (measure (\<lambda>x. nat \<bar>\<lfloor>log 2 x\<rfloor>\<bar>))"
    by simp
next
  fix x :: real
  assume x: "2 \<le> x"
  define k where "k = \<lfloor>log 2 x\<rfloor>"
  from x have "log 2 (x / 2) = log 2 x - 1"
    by (simp add: log_divide)
  then have l: "\<lfloor>log 2 (x / 2)\<rfloor> = k - 1"
    by (simp add: k_def)
  from x have "log 2 2 \<le> log 2 x"
    by simp
  then have "1 \<le> log 2 x"
    by simp
  then have "1 \<le> k"
    unfolding k_def by linarith
  then have "nat \<bar>k - 1\<bar> < nat \<bar>k\<bar>"
    by arith
  then show "(x / 2, x) \<in> measure (\<lambda>x. nat \<bar>\<lfloor>log 2 x\<rfloor>\<bar>)"
    using l by (simp add: k_def)
next
  fix x :: real
  assume "\<not> 2 \<le> x" and x: "0 < x \<and> x < 1"
  define k where "k = \<lfloor>log 2 x\<rfloor>"
  from x have "log 2 (2 * x) = log 2 x + 1"
    by (simp add: log_mult)
  then have l: "\<lfloor>log 2 (2 * x)\<rfloor> = k + 1"
    by (simp add: k_def)
  from x have "log 2 x < 0"
    by simp
  then have "k < 0"
    unfolding k_def by linarith
  then have "nat \<bar>k + 1\<bar> < nat \<bar>k\<bar>"
    by arith
  then show "(2 * x, x) \<in> measure (\<lambda>x. nat \<bar>\<lfloor>log 2 x\<rfloor>\<bar>)"
    using l by (simp add: k_def)
qed

declare ilog2.simps [simp del]

text \<open>Powers of two with an integer exponent, and rounding to the nearest integer, ties to even.\<close>

definition pow2 :: "int \<Rightarrow> real" where
  "pow2 e = (if 0 \<le> e then 2 ^ nat e else 1 / 2 ^ nat (- e))"

definition rne :: "real \<Rightarrow> int" where
  "rne x =
     (let f = \<lfloor>x\<rfloor>; d = x - of_int f
      in if d < 1 / 2 then f
         else if 1 / 2 < d then f + 1
         else if even f then f else f + 1)"

text \<open>A binary format: the number of significand bits and the range of the exponent.\<close>

record format =
  precision :: nat
  emin :: int
  emax :: int

definition binary32 :: format where
  "binary32 = \<lparr> precision = 24, emin = - 126, emax = 127 \<rparr>"

definition binary64 :: format where
  "binary64 = \<lparr> precision = 53, emin = - 1022, emax = 1023 \<rparr>"

text \<open>
  Rounding to nearest, ties to even. The magnitude is rounded on the grid of its binade,
  or of the subnormal numbers below \<open>2^emin\<close>; a result of \<open>2^(emax+1)\<close> or more is an
  infinity, and a nonzero value that rounds to zero keeps its sign.
\<close>

definition round_mag :: "format \<Rightarrow> real \<Rightarrow> real" where
  "round_mag F x =
     (let e = max (emin F) (ilog2 x);
          u = pow2 (e - int (precision F) + 1)
      in of_int (rne (x / u)) * u)"

fun round_fl :: "format \<Rightarrow> fl \<Rightarrow> fl" where
  "round_fl F (Fin r) =
     (if r = 0 then Fin 0
      else
        let m = round_mag F \<bar>r\<bar>
        in if pow2 (emax F + 1) \<le> m then mk_inf (r < 0)
           else if m = 0 then mk_zero (r < 0)
           else Fin (if r < 0 then - m else m))"
| "round_fl F NegZero = NegZero"
| "round_fl F PInf = PInf"
| "round_fl F MInf = MInf"
| "round_fl F NaN = NaN"

subsection \<open>Machine operations\<close>

text \<open>
  The conversion of a double to float, the operations on two floats and the operations on
  two doubles. Each operation is rounded on its own; no multiplication is fused with an
  addition.
\<close>

definition to_float :: "fl \<Rightarrow> fl" where
  "to_float x = round_fl binary32 x"

definition fl_add :: "fl \<Rightarrow> fl \<Rightarrow> fl" where
  "fl_add x y = round_fl binary32 (exact_add x y)"

definition fl_mult :: "fl \<Rightarrow> fl \<Rightarrow> fl" where
  "fl_mult x y = round_fl binary32 (exact_mult x y)"

definition fl_div :: "fl \<Rightarrow> fl \<Rightarrow> fl" where
  "fl_div x y = round_fl binary32 (exact_div x y)"

definition dbl_add :: "fl \<Rightarrow> fl \<Rightarrow> fl" where
  "dbl_add x y = round_fl binary64 (exact_add x y)"

definition dbl_sub :: "fl \<Rightarrow> fl \<Rightarrow> fl" where
  "dbl_sub x y = round_fl binary64 (exact_sub x y)"

definition dbl_mult :: "fl \<Rightarrow> fl \<Rightarrow> fl" where
  "dbl_mult x y = round_fl binary64 (exact_mult x y)"

text \<open>
  A literal that enters the arithmetic: \<open>0.985f\<close> is the float, \<open>0.497\<close> the double
  nearest to the decimal number. A float compared with a literal such as \<open>0.2\<close> or
  \<open>0.8\<close> is compared with the decimal number itself below: no float and no double
  lies between the decimal number and the double nearest to it.
\<close>

definition float_lit :: "real \<Rightarrow> fl" where
  "float_lit r = round_fl binary32 (Fin r)"

definition double_lit :: "real \<Rightarrow> fl" where
  "double_lit r = round_fl binary64 (Fin r)"

text \<open>Conversion of an integer operand in a mixed comparison.\<close>

definition fl_of_int :: "int \<Rightarrow> fl" where
  "fl_of_int n = round_fl binary32 (Fin (of_int n))"

section \<open>Data model\<close>

text \<open>
  A row of the joined track table, with the accessors the task calls. The integer
  accessors are only compared, never added, so they are plain integers. The rows that
  reach a process function are those that have passed the filters of the task.
\<close>

record track =
  globalIndex :: int
  collisionId :: int
  pt :: fl
  eta :: fl
  phi :: fl
  sign :: int
  isGlobalTrack :: bool
  isGlobalTrackWoDCA :: bool
  isPVContributor :: bool
  itsNCls :: int
  dcaXY :: fl
  dcaZ :: fl
  hasTOF :: bool
  hasTPC :: bool
  tofNSigmaPi :: fl
  tpcNSigmaPi :: fl
  tpcNClsCrossedRows :: int
  tpcCrossedRowsOverFindableCls :: fl
  tpcNClsFound :: int

record collision =
  posX :: fl
  posY :: fl
  posZ :: fl
  sel8 :: bool
  multZeqFT0A :: fl
  multZeqFT0C :: fl
  centFT0C :: fl
  centFT0M :: fl
  numContrib :: int

text \<open>
  A row of the V0 table. \<open>posTrack\<close> and \<open>negTrack\<close> are the rows that
  \<open>posTrack_as\<close> and \<open>negTrack_as\<close> return; \<open>distovertotmom\<close> takes the
  position of the primary vertex.
\<close>

record v0 =
  collisionId :: int
  pt :: fl
  eta :: fl
  phi :: fl
  posTrack :: track
  negTrack :: track
  dcav0topv :: fl
  yK0Short :: fl
  qtarm :: fl
  alpha :: fl
  v0radius :: fl
  dcaV0daughters :: fl
  v0cosPA :: fl
  distovertotmom :: "fl \<Rightarrow> fl \<Rightarrow> fl \<Rightarrow> fl"
  mK0Short :: fl

text \<open>The configurables the selection and pairing code reads.\<close>

record config =
  QAbefore :: bool
  QAafter :: bool
  QAv0 :: bool
  ConfV0PtMin :: fl
  ConfV0DCADaughMax :: fl
  ConfV0CPAMin :: fl
  ConfV0TranRadV0Min :: fl
  ConfV0TranRadV0Max :: fl
  cMaxV0LifeTime :: fl
  cMaxV0DCA :: fl
  cSigmaMassKs0 :: fl
  cWidthKs0 :: fl
  ConfDaughEta :: fl
  ConfDaughTPCnclsMin :: fl
  ConfDaughDCAMin :: fl
  ConfDaughPIDCuts :: fl
  cfgCutDCAxy :: fl
  cfgCutDCAz :: fl
  nsigmaCutTPC :: fl
  nsigmaCutCombined :: fl
  cutzvertex :: fl
  cfgCutPT :: fl
  cfgCutEta :: fl
  cfgNoMixedEvents :: int
  cfgMultFT0 :: bool
  cfgCentFT0C :: bool
  iscustomDCAcut :: bool
  ismanualDCAcut :: bool
  cfgITScluster :: int

text \<open>
  The values the configurables are declared with: a \<open>Configurable<float>\<close> holds the
  float, a \<open>Configurable<double>\<close> the double nearest to its decimal default.
\<close>

definition default_config :: config where
  "default_config =
     \<lparr> QAbefore = False, QAafter = False, QAv0 = False,
       ConfV0PtMin = Fin 0, ConfV0DCADaughMax = Fin 1, ConfV0CPAMin = float_lit 0.985,
       ConfV0TranRadV0Min = Fin 0.5, ConfV0TranRadV0Max = Fin 200,
       cMaxV0LifeTime = Fin 15, cMaxV0DCA = double_lit 0.3,
       cSigmaMassKs0 = Fin 4, cWidthKs0 = double_lit 0.005,
       ConfDaughEta = float_lit 0.8, ConfDaughTPCnclsMin = Fin 70,
       ConfDaughDCAMin = float_lit 0.06, ConfDaughPIDCuts = Fin 4,
       cfgCutDCAxy = Fin 2, cfgCutDCAz = Fin 2,
       nsigmaCutTPC = Fin 3, nsigmaCutCombined = Fin 3,
       cutzvertex = Fin 10, cfgCutPT = float_lit 0.2, cfgCutEta = float_lit 0.8,
       cfgNoMixedEvents = 5, cfgMultFT0 = False, cfgCentFT0C = True,
       iscustomDCAcut = False, ismanualDCAcut = True, cfgITScluster = 0 \<rparr>"

text \<open>
  The histogram registries are external accumulators; the model records each \<open>fill\<close>
  call, in program order, with the registry, the histogram name and the values. What a
  registry does with a fill, and whether \<open>init\<close> has added the histogram, is outside the
  model.
\<close>

datatype registry = rEventSelection | histos

datatype fill_event = Fill registry string "fl list"

text \<open>
  The members of the task that a process function writes: the four-vector
  \<open>CKSVector\<close> and the registries. The vector type is a parameter, see below.
\<close>

record 'v task_state =
  CKSVector :: 'v
  fills :: "fill_event list"

text \<open>
  The particle database and the four-vector classes of ROOT are outside the repository.
  They are parameters of the model: the two masses that \<open>TDatabasePDG\<close> returns, and for
  a vector class its constructor from \<open>(pt, eta, phi, m)\<close>, its sum and the three
  accessors the task calls.
\<close>

record pdg =
  mass_kPiPlus :: fl
  mass_kK0Short :: fl

record 'v lorentz =
  PtEtaPhiM :: "fl \<Rightarrow> fl \<Rightarrow> fl \<Rightarrow> fl \<Rightarrow> 'v"
  plus4 :: "'v \<Rightarrow> 'v \<Rightarrow> 'v"
  Rapidity :: "'v \<Rightarrow> fl"
  Pt :: "'v \<Rightarrow> fl"
  M :: "'v \<Rightarrow> fl"

definition massPi :: "pdg \<Rightarrow> fl" where
  "massPi db = mass_kPiPlus db"

definition massK0s :: "pdg \<Rightarrow> fl" where
  "massK0s db = mass_kK0Short db"

section \<open>Candidate selectors\<close>

definition selectionTrack :: "config \<Rightarrow> track \<Rightarrow> bool" where
  "selectionTrack cfg candidate =
     (if iscustomDCAcut cfg \<and>
         \<not> (isGlobalTrack candidate \<or> isPVContributor candidate \<or>
            itsNCls candidate > cfgITScluster cfg) then False
      else if ismanualDCAcut cfg \<and>
         \<not> (isGlobalTrackWoDCA candidate \<or> isPVContributor candidate \<or>
            fl_less (fl_abs (dcaXY candidate)) (cfgCutDCAxy cfg) \<or>
            fl_less (fl_abs (dcaZ candidate)) (cfgCutDCAz cfg) \<or>
            itsNCls candidate > cfgITScluster cfg) then False
      else True)"

definition selectionPID :: "config \<Rightarrow> track \<Rightarrow> bool" where
  "selectionPID cfg candidate =
     (if hasTOF candidate \<and>
         fl_less (fl_add (fl_mult (tofNSigmaPi candidate) (tofNSigmaPi candidate))
                         (fl_mult (tpcNSigmaPi candidate) (tpcNSigmaPi candidate)))
                 (fl_mult (nsigmaCutCombined cfg) (nsigmaCutCombined cfg)) then True
      else if \<not> hasTOF candidate \<and>
         fl_less (fl_abs (tpcNSigmaPi candidate)) (nsigmaCutTPC cfg) then True
      else False)"

text \<open>
  The two bounds of the mass window are computed in double and stored in a float; the
  lifetime is the product of a float and a double, stored in a float.
\<close>

definition lowmasscutks0 :: "config \<Rightarrow> fl" where
  "lowmasscutks0 cfg =
     to_float (dbl_sub (double_lit 0.497) (dbl_mult (cWidthKs0 cfg) (cSigmaMassKs0 cfg)))"

definition highmasscutks0 :: "config \<Rightarrow> fl" where
  "highmasscutks0 cfg =
     to_float (dbl_add (double_lit 0.497) (dbl_mult (cWidthKs0 cfg) (cSigmaMassKs0 cfg)))"

definition CtauK0s :: "pdg \<Rightarrow> collision \<Rightarrow> v0 \<Rightarrow> fl" where
  "CtauK0s db collision candidate =
     to_float
       (dbl_mult (distovertotmom candidate (posX collision) (posY collision) (posZ collision))
                 (mass_kK0Short db))"

text \<open>
  \<open>SelectionV0\<close> returns its verdict and the state, which it changes only by the four
  monitoring fills of an accepted candidate.
\<close>

definition SelectionV0 ::
  "pdg \<Rightarrow> config \<Rightarrow> collision \<Rightarrow> v0 \<Rightarrow> fl \<Rightarrow> 'v task_state \<Rightarrow> bool \<times> 'v task_state" where
  "SelectionV0 db cfg collision candidate multiplicity s =
     (if fl_greater (fl_abs (dcav0topv candidate)) (cMaxV0DCA cfg) then (False, s)
      else if fl_greater (fl_abs (yK0Short candidate)) (Fin 0.5) then (False, s)
      else
        let arm = fl_div (qtarm candidate) (alpha candidate);
            pT = v0.pt candidate;
            tranRad = v0radius candidate;
            dcaDaughv0 = dcaV0daughters candidate;
            cpav0 = v0cosPA candidate
        in
          if fl_less pT (ConfV0PtMin cfg) then (False, s)
          else if fl_greater dcaDaughv0 (ConfV0DCADaughMax cfg) then (False, s)
          else if fl_less cpav0 (ConfV0CPAMin cfg) then (False, s)
          else if fl_less tranRad (ConfV0TranRadV0Min cfg) then (False, s)
          else if fl_greater tranRad (ConfV0TranRadV0Max cfg) then (False, s)
          else if fl_greater (fl_abs (CtauK0s db collision candidate)) (cMaxV0LifeTime cfg) \<or>
                  fl_less (mK0Short candidate) (lowmasscutks0 cfg) \<or>
                  fl_greater (mK0Short candidate) (highmasscutks0 cfg) then (False, s)
          else if fl_less arm (Fin 0.2) then (False, s)
          else
            (True,
             if QAv0 cfg then
               s\<lparr>fills := fills s @
                   [Fill histos ''hLT'' [CtauK0s db collision candidate],
                    Fill histos ''hMassvsptvsmult''
                      [mK0Short candidate, v0.pt candidate, multiplicity],
                    Fill histos ''hDCAV0Daughters'' [dcaV0daughters candidate],
                    Fill histos ''hV0CosPA'' [v0cosPA candidate]]\<rparr>
             else s))"

definition isSelectedV0Daughter :: "config \<Rightarrow> track \<Rightarrow> fl \<Rightarrow> fl \<Rightarrow> bool" where
  "isSelectedV0Daughter cfg track charge nsigmaV0Daughter =
     (let eta = track.eta track;
          tpcNClsF = tpcNClsFound track;
          dcaXY = dcaXY track;
          sign = sign track
      in
        if \<not> hasTPC track then False
        else if tpcNClsCrossedRows track < 70 then False
        else if fl_less (tpcCrossedRowsOverFindableCls track) (Fin 0.8) then False
        else if fl_less charge (Fin 0) \<and> sign > 0 then False
        else if fl_greater charge (Fin 0) \<and> sign < 0 then False
        else if fl_greater (fl_abs eta) (ConfDaughEta cfg) then False
        else if fl_less (fl_of_int tpcNClsF) (ConfDaughTPCnclsMin cfg) then False
        else if fl_less (fl_abs dcaXY) (ConfDaughDCAMin cfg) then False
        else if fl_greater (fl_abs nsigmaV0Daughter) (ConfDaughPIDCuts cfg) then False
        else True)"

section \<open>Table filters\<close>

text \<open>
  The filters of the task. \<open>EventCandidates\<close> holds the collisions that pass
  \<open>posZFilter\<close>; \<open>TrackCandidates\<close> holds the tracks that pass \<open>acceptanceFilter\<close> and
  \<open>DCAcutFilter\<close>. The track loops of both process functions run over rows of
  \<open>TrackCandidates\<close>, and \<open>selectionTrack\<close> is called on such rows only.
\<close>

definition posZFilter :: "config \<Rightarrow> collision \<Rightarrow> bool" where
  "posZFilter cfg c = fl_less (fl_abs (posZ c)) (cutzvertex cfg)"

definition acceptanceFilter :: "config \<Rightarrow> track \<Rightarrow> bool" where
  "acceptanceFilter cfg t =
     (fl_less (fl_abs (track.eta t)) (cfgCutEta cfg) \<and>
      fl_greater (fl_abs (track.pt t)) (cfgCutPT cfg))"

definition DCAcutFilter :: "config \<Rightarrow> track \<Rightarrow> bool" where
  "DCAcutFilter cfg t =
     (fl_less (fl_abs (dcaXY t)) (cfgCutDCAxy cfg) \<and>
      fl_less (fl_abs (dcaZ t)) (cfgCutDCAz cfg))"

definition TrackCandidates :: "config \<Rightarrow> track \<Rightarrow> bool" where
  "TrackCandidates cfg t = (acceptanceFilter cfg t \<and> DCAcutFilter cfg t)"

section \<open>Same-event pairing\<close>

text \<open>The multiplicity estimate, chosen by the two switches as both engines write it.\<close>

definition event_multiplicity :: "config \<Rightarrow> collision \<Rightarrow> fl" where
  "event_multiplicity cfg collision =
     (let multiplicity = Fin 0;
          multiplicity = (if cfgMultFT0 cfg
                          then fl_add (multZeqFT0A collision) (multZeqFT0C collision)
                          else multiplicity);
          multiplicity = (if \<not> cfgMultFT0 cfg \<and> cfgCentFT0C cfg
                          then centFT0C collision else multiplicity);
          multiplicity = (if \<not> cfgMultFT0 cfg \<and> \<not> cfgCentFT0C cfg
                          then centFT0M collision else multiplicity)
      in multiplicity)"

text \<open>The local vectors of \<open>processSE\<close>, filled in parallel.\<close>

record 'v se_vectors =
  pions :: "'v list"
  kshorts :: "'v list"
  PionIndex :: "int list"
  PioncollIndex :: "int list"
  V0collIndex :: "int list"
  KshortPosDaughIndex :: "int list"
  KshortNegDaughIndex :: "int list"

definition no_vectors :: "'v se_vectors" where
  "no_vectors =
     \<lparr> pions = [], kshorts = [], PionIndex = [], PioncollIndex = [], V0collIndex = [],
       KshortPosDaughIndex = [], KshortNegDaughIndex = [] \<rparr>"

text \<open>\<open>std::vector::at\<close>: \<open>None\<close> stands for the exception \<open>std::out_of_range\<close>.\<close>

definition vector_at :: "'a list \<Rightarrow> nat \<Rightarrow> 'a option" where
  "vector_at xs i = (if i < length xs then Some (xs ! i) else None)"

text \<open>A loop whose body may throw: the first exception leaves the loop.\<close>

fun for_each :: "('a \<Rightarrow> 's \<Rightarrow> 's option) \<Rightarrow> 'a list \<Rightarrow> 's \<Rightarrow> 's option" where
  "for_each body [] s = Some s"
| "for_each body (x # xs) s =
     (case body x s of None \<Rightarrow> None | Some s' \<Rightarrow> for_each body xs s')"

text \<open>The body of the track loop.\<close>

definition track_step ::
  "pdg \<Rightarrow> 'v lorentz \<Rightarrow> config \<Rightarrow> track \<Rightarrow>
   'v se_vectors \<times> 'v task_state \<Rightarrow> 'v se_vectors \<times> 'v task_state" where
  "track_step db L cfg track1 = (\<lambda>(vs, s).
     let s1 = (if QAbefore cfg then
                 s\<lparr>fills := fills s @
                     [Fill histos ''hNsigmaPionTPC_before'' [tpcNSigmaPi track1],
                      Fill histos ''hNsigmaPionTOF_before'' [tofNSigmaPi track1]]\<rparr>
               else s)
     in
       if \<not> selectionPID cfg track1 then (vs, s1)
       else if \<not> selectionTrack cfg track1 then (vs, s1)
       else
         let s2 = (if QAafter cfg then
                     s1\<lparr>fills := fills s1 @
                          [Fill histos ''hEta_after'' [track.eta track1],
                           Fill histos ''hDcaxy_after'' [dcaXY track1],
                           Fill histos ''hDcaz_after'' [dcaZ track1],
                           Fill histos ''hNsigmaPionTPC_after'' [tpcNSigmaPi track1],
                           Fill histos ''hNsigmaPionTOF_after'' [tofNSigmaPi track1]]\<rparr>
                   else s1);
             temp1 = PtEtaPhiM L (track.pt track1) (track.eta track1) (track.phi track1)
                       (massPi db)
         in (vs\<lparr>pions := pions vs @ [temp1],
                 PionIndex := PionIndex vs @ [globalIndex track1],
                 PioncollIndex := PioncollIndex vs @ [track.collisionId track1]\<rparr>, s2))"

text \<open>The body of the V0 loop.\<close>

definition v0_step ::
  "pdg \<Rightarrow> 'v lorentz \<Rightarrow> config \<Rightarrow> collision \<Rightarrow> fl \<Rightarrow> v0 \<Rightarrow>
   'v se_vectors \<times> 'v task_state \<Rightarrow> 'v se_vectors \<times> 'v task_state" where
  "v0_step db L cfg collision multiplicity v0 = (\<lambda>(vs, s).
     let postrack = posTrack v0;
         negtrack = negTrack v0;
         nTPCSigmaPos = tpcNSigmaPi postrack;
         nTPCSigmaNeg = tpcNSigmaPi negtrack
     in
       if \<not> isSelectedV0Daughter cfg postrack (Fin 1) nTPCSigmaPos then (vs, s)
       else if \<not> isSelectedV0Daughter cfg negtrack (Fin (- 1)) nTPCSigmaNeg then (vs, s)
       else
         (case SelectionV0 db cfg collision v0 multiplicity s of
            (accepted, s1) \<Rightarrow>
              if \<not> accepted then (vs, s1)
              else
                let temp2 = PtEtaPhiM L (v0.pt v0) (v0.eta v0) (v0.phi v0) (massK0s db)
                in (vs\<lparr>kshorts := kshorts vs @ [temp2],
                        V0collIndex := V0collIndex vs @ [v0.collisionId v0],
                        KshortPosDaughIndex := KshortPosDaughIndex vs @ [globalIndex postrack],
                        KshortNegDaughIndex := KshortNegDaughIndex vs @ [globalIndex negtrack]\<rparr>,
                    s1)))"

text \<open>The body of the inner pairing loop, at the positions \<open>i1\<close> and \<open>i3\<close>.\<close>

definition pair_step ::
  "'v lorentz \<Rightarrow> fl \<Rightarrow> 'v se_vectors \<Rightarrow> nat \<Rightarrow> nat \<Rightarrow> 'v task_state \<Rightarrow> 'v task_state option" where
  "pair_step L multiplicity vs i1 i3 s =
     do {
       pion_id \<leftarrow> vector_at (PionIndex vs) i1;
       pos_id \<leftarrow> vector_at (KshortPosDaughIndex vs) i3;
       if pion_id = pos_id then Some s
       else do {
         neg_id \<leftarrow> vector_at (KshortNegDaughIndex vs) i3;
         if pion_id = neg_id then Some s
         else do {
           pion_coll \<leftarrow> vector_at (PioncollIndex vs) i1;
           v0_coll \<leftarrow> vector_at (V0collIndex vs) i3;
           if pion_coll \<noteq> v0_coll then Some s
           else do {
             pion \<leftarrow> vector_at (pions vs) i1;
             kshort \<leftarrow> vector_at (kshorts vs) i3;
             let s1 = s\<lparr>CKSVector := plus4 L pion kshort\<rparr>;
             if fl_less (fl_abs (Rapidity L (CKSVector s1))) (Fin 0.5) then
               Some (s1\<lparr>fills := fills s1 @
                          [Fill histos ''h3CKSInvMassUnlikeSign''
                             [multiplicity, Pt L (CKSVector s1), M L (CKSVector s1)]]\<rparr>)
             else Some s1
           }
         }
       }
     }"

definition processSE ::
  "pdg \<Rightarrow> 'v lorentz \<Rightarrow> config \<Rightarrow> collision \<Rightarrow> track list \<Rightarrow> v0 list \<Rightarrow>
   'v task_state \<Rightarrow> 'v task_state option" where
  "processSE db L cfg collision tracks V0s s =
     (if \<not> sel8 collision then Some s
      else
        let multiplicity = event_multiplicity cfg collision;
            s1 = s\<lparr>fills := fills s @
                     [Fill rEventSelection ''hVertexZRec'' [posZ collision],
                      Fill rEventSelection ''hmult'' [multiplicity]]\<rparr>;
            (vs1, s2) = fold (track_step db L cfg) tracks (no_vectors, s1);
            (vs2, s3) = fold (v0_step db L cfg collision multiplicity) V0s (vs1, s2)
        in
          if length (pions vs2) \<noteq> 0 \<and> length (kshorts vs2) \<noteq> 0 then
            for_each
              (\<lambda>i1. for_each (\<lambda>i3. pair_step L multiplicity vs2 i1 i3)
                       [0 ..< length (kshorts vs2)])
              [0 ..< length (pions vs2)] s3
          else Some s3)"

section \<open>Mixed-event pairing\<close>

text \<open>
  Modelled from the spec: \<open>CombinationsFullIndexPolicy\<close> is framework code, described as
  the full cross product of the two candidate sets, every element of the first against
  every element of the second.
\<close>

definition combinations_full :: "'a list \<Rightarrow> 'b list \<Rightarrow> ('a \<times> 'b) list" where
  "combinations_full tracks1 tracks2 = concat (map (\<lambda>t1. map (Pair t1) tracks2) tracks1)"

text \<open>The body of the combination loop, for the second collision \<open>c2\<close>.\<close>

definition mixed_step ::
  "pdg \<Rightarrow> 'w lorentz \<Rightarrow> config \<Rightarrow> collision \<Rightarrow> fl \<Rightarrow> track \<times> v0 \<Rightarrow>
   'v task_state \<Rightarrow> 'v task_state" where
  "mixed_step db T cfg c2 multiplicity = (\<lambda>(t1, t2) s.
     if \<not> selectionTrack cfg t1 then s
     else if \<not> selectionPID cfg t1 then s
     else
       (case SelectionV0 db cfg c2 t2 multiplicity s of
          (accepted, s1) \<Rightarrow>
            if \<not> accepted then s1
            else
              let postrack = posTrack t2;
                  negtrack = negTrack t2;
                  nTPCSigmaPos = tpcNSigmaPi postrack;
                  nTPCSigmaNeg = tpcNSigmaPi negtrack
              in
                if \<not> isSelectedV0Daughter cfg postrack (Fin 1) nTPCSigmaPos then s1
                else if \<not> isSelectedV0Daughter cfg negtrack (Fin (- 1)) nTPCSigmaNeg then s1
                else
                  let pi = PtEtaPhiM T (track.pt t1) (track.eta t1) (track.phi t1) (massPi db);
                      KSh = PtEtaPhiM T (v0.pt t2) (v0.eta t2) (v0.phi t2) (massK0s db);
                      CKSmix = plus4 T pi KSh
                  in
                    if fl_less (fl_abs (Rapidity T CKSmix)) (Fin 0.5) then
                      s1\<lparr>fills := fills s1 @
                           [Fill histos ''h3CKSInvMassMixed''
                              [multiplicity, Pt T CKSmix, M T CKSmix]]\<rparr>
                    else s1))"

text \<open>
  The body of the outer loop, for one tuple \<open>(c1, tracks1, c2, tracks2)\<close> that the pair
  generator supplies: the tracks of the first collision and the V0s of the second.
\<close>

definition mixed_event_step ::
  "pdg \<Rightarrow> 'w lorentz \<Rightarrow> config \<Rightarrow> collision \<times> track list \<times> collision \<times> v0 list \<Rightarrow>
   'v task_state \<Rightarrow> 'v task_state" where
  "mixed_event_step db T cfg = (\<lambda>(c1, tracks1, c2, tracks2) s.
     if \<not> sel8 c1 then s
     else if \<not> sel8 c2 then s
     else
       let multiplicity = event_multiplicity cfg c1
       in fold (mixed_step db T cfg c2 multiplicity) (combinations_full tracks1 tracks2) s)"

text \<open>\<open>processME\<close> runs over the sequence of tuples that the member \<open>pair\<close> yields.\<close>

definition processME ::
  "pdg \<Rightarrow> 'w lorentz \<Rightarrow> config \<Rightarrow> (collision \<times> track list \<times> collision \<times> v0 list) list \<Rightarrow>
   'v task_state \<Rightarrow> 'v task_state" where
  "processME db T cfg pair s = fold (mixed_event_step db T cfg) pair s"

section \<open>The pair generator\<close>

text \<open>
  The member \<open>pair\<close> is built from \<open>binningOnPositions\<close>, a binning of the columns
  \<open>PosZ\<close> and \<open>NumContrib\<close> on the axes \<open>axisVertex\<close> and \<open>axisMultiplicity\<close>, with
  \<open>cfgNoMixedEvents\<close> partners for a collision. The classes that turn this into a
  sequence of collision pairs belong to the framework.
\<close>

record axis =
  axis_bins :: nat
  axis_min :: real
  axis_max :: real

definition axisVertex :: axis where
  "axisVertex = \<lparr> axis_bins = 20, axis_min = - 10, axis_max = 10 \<rparr>"

definition axisMultiplicity :: axis where
  "axisMultiplicity = \<lparr> axis_bins = 2000, axis_min = 0, axis_max = 10000 \<rparr>"

text \<open>
  Modelled from the spec: the bucket of a value on an axis is missing from the sources. A
  value inside the range of the axis falls into one of its equal buckets; a value outside
  the range, or one that is no number, has no bucket.
\<close>

definition bucket :: "axis \<Rightarrow> fl \<Rightarrow> nat option" where
  "bucket ax x =
     (if fl_finite x \<and> axis_min ax \<le> fl_val x \<and> fl_val x < axis_max ax \<and> 0 < axis_bins ax
      then Some (nat \<lfloor>(fl_val x - axis_min ax) * real (axis_bins ax) /
                       (axis_max ax - axis_min ax)\<rfloor>)
      else None)"

text \<open>
  Modelled from the spec: the bin key of a collision is missing from the sources. It is
  the pair of the bucket of the vertex z-position and the bucket of the multiplicity
  estimator, here the number of contributors that the binning is declared on.
\<close>

definition bin_key :: "axis \<Rightarrow> axis \<Rightarrow> collision \<Rightarrow> (nat \<times> nat) option" where
  "bin_key av am c =
     (case bucket av (posZ c) of
        None \<Rightarrow> None
      | Some a \<Rightarrow>
          (case bucket am (fl_of_int (numContrib c)) of
             None \<Rightarrow> None
           | Some b \<Rightarrow> Some (a, b)))"

text \<open>
  Modelled from the spec: the pairing policy is missing from the sources. Collisions are
  grouped by bin key; a collision is paired with up to \<open>n\<close> later collisions of its bin,
  so no collision is paired with itself and no pair is supplied twice.
\<close>

fun same_bin_pairs :: "axis \<Rightarrow> axis \<Rightarrow> nat \<Rightarrow> collision list \<Rightarrow> (collision \<times> collision) list" where
  "same_bin_pairs av am n [] = []"
| "same_bin_pairs av am n (c1 # cs) =
     (case bin_key av am c1 of
        None \<Rightarrow> []
      | Some k \<Rightarrow> map (Pair c1) (take n (filter (\<lambda>c2. bin_key av am c2 = Some k) cs)))
     @ same_bin_pairs av am n cs"

text \<open>
  Modelled from the spec: the generator \<open>Pair\<close> is missing from the sources. Each pair of
  collisions comes with the tracks of the first and the V0s of the second collision; the
  grouping of the two tables by collision is given by \<open>tracks_of\<close> and \<open>V0s_of\<close>.
\<close>

definition pair_generator ::
  "axis \<Rightarrow> axis \<Rightarrow> config \<Rightarrow> (collision \<Rightarrow> track list) \<Rightarrow> (collision \<Rightarrow> v0 list) \<Rightarrow>
   collision list \<Rightarrow> (collision \<times> track list \<times> collision \<times> v0 list) list" where
  "pair_generator av am cfg tracks_of V0s_of collisions =
     map (\<lambda>(c1, c2). (c1, tracks_of c1, c2, V0s_of c2))
       (same_bin_pairs av am (nat (cfgNoMixedEvents cfg)) collisions)"

section \<open>Verdicts\<close>

text \<open>
  The verdict of \<open>SelectionV0\<close> as a predicate without the state: every cut of the
  function, in its order, negated.
\<close>

definition V0_accepted :: "pdg \<Rightarrow> config \<Rightarrow> collision \<Rightarrow> v0 \<Rightarrow> bool" where
  "V0_accepted db cfg collision candidate =
     (\<not> fl_greater (fl_abs (dcav0topv candidate)) (cMaxV0DCA cfg) \<and>
      \<not> fl_greater (fl_abs (yK0Short candidate)) (Fin 0.5) \<and>
      \<not> fl_less (v0.pt candidate) (ConfV0PtMin cfg) \<and>
      \<not> fl_greater (dcaV0daughters candidate) (ConfV0DCADaughMax cfg) \<and>
      \<not> fl_less (v0cosPA candidate) (ConfV0CPAMin cfg) \<and>
      \<not> fl_less (v0radius candidate) (ConfV0TranRadV0Min cfg) \<and>
      \<not> fl_greater (v0radius candidate) (ConfV0TranRadV0Max cfg) \<and>
      \<not> fl_greater (fl_abs (CtauK0s db collision candidate)) (cMaxV0LifeTime cfg) \<and>
      \<not> fl_less (mK0Short candidate) (lowmasscutks0 cfg) \<and>
      \<not> fl_greater (mK0Short candidate) (highmasscutks0 cfg) \<and>
      \<not> fl_less (fl_div (qtarm candidate) (alpha candidate)) (Fin 0.2))"

section \<open>What the engines emit\<close>

text \<open>
  The pairing loops stated on rows instead of positions in the local vectors: the pion
  candidates and the composites that the two scans of \<open>processSE\<close> keep, the four-vector
  of a pair, and the pairs for which the body of the pairing loop reaches its \<open>fill\<close>.
  The lemmas below show that the engines emit exactly these.
\<close>

definition se_pions :: "config \<Rightarrow> track list \<Rightarrow> track list" where
  "se_pions cfg tracks = filter (\<lambda>t. selectionPID cfg t \<and> selectionTrack cfg t) tracks"

definition daughters_selected :: "config \<Rightarrow> v0 \<Rightarrow> bool" where
  "daughters_selected cfg v =
     (isSelectedV0Daughter cfg (posTrack v) (Fin 1) (tpcNSigmaPi (posTrack v)) \<and>
      isSelectedV0Daughter cfg (negTrack v) (Fin (- 1)) (tpcNSigmaPi (negTrack v)))"

definition se_kshorts :: "pdg \<Rightarrow> config \<Rightarrow> collision \<Rightarrow> v0 list \<Rightarrow> v0 list" where
  "se_kshorts db cfg collision V0s =
     filter (\<lambda>v. daughters_selected cfg v \<and> V0_accepted db cfg collision v) V0s"

definition pion_vector :: "pdg \<Rightarrow> 'v lorentz \<Rightarrow> track \<Rightarrow> 'v" where
  "pion_vector db L t = PtEtaPhiM L (track.pt t) (track.eta t) (track.phi t) (massPi db)"

definition kshort_vector :: "pdg \<Rightarrow> 'v lorentz \<Rightarrow> v0 \<Rightarrow> 'v" where
  "kshort_vector db L v = PtEtaPhiM L (v0.pt v) (v0.eta v) (v0.phi v) (massK0s db)"

definition pair_vector :: "pdg \<Rightarrow> 'v lorentz \<Rightarrow> track \<Rightarrow> v0 \<Rightarrow> 'v" where
  "pair_vector db L t v = plus4 L (pion_vector db L t) (kshort_vector db L v)"

definition mass_fill :: "string \<Rightarrow> 'v lorentz \<Rightarrow> fl \<Rightarrow> 'v \<Rightarrow> fill_event" where
  "mass_fill name L multiplicity sum4 = Fill histos name [multiplicity, Pt L sum4, M L sum4]"

definition se_emitted_pairs ::
  "pdg \<Rightarrow> 'v lorentz \<Rightarrow> config \<Rightarrow> collision \<Rightarrow> track list \<Rightarrow> v0 list \<Rightarrow> (track \<times> v0) list" where
  "se_emitted_pairs db L cfg collision tracks V0s =
     (if sel8 collision then
        [(t, v). t \<leftarrow> se_pions cfg tracks, v \<leftarrow> se_kshorts db cfg collision V0s,
                 globalIndex t \<noteq> globalIndex (posTrack v),
                 globalIndex t \<noteq> globalIndex (negTrack v),
                 track.collisionId t = v0.collisionId v,
                 fl_less (fl_abs (Rapidity L (pair_vector db L t v))) (Fin 0.5)]
      else [])"

text \<open>
  For the mixed events: the multiplicity of the first collision with the track of the
  first and the V0 of the second collision, for every combination that reaches the
  \<open>fill\<close>.
\<close>

definition me_emitted_pairs ::
  "pdg \<Rightarrow> 'w lorentz \<Rightarrow> config \<Rightarrow> (collision \<times> track list \<times> collision \<times> v0 list) list \<Rightarrow>
   (fl \<times> track \<times> v0) list" where
  "me_emitted_pairs db T cfg pair =
     concat (map (\<lambda>(c1, tracks1, c2, tracks2).
       if sel8 c1 \<and> sel8 c2 then
         [(event_multiplicity cfg c1, t1, t2). t1 \<leftarrow> tracks1, t2 \<leftarrow> tracks2,
            selectionTrack cfg t1, selectionPID cfg t1, V0_accepted db cfg c2 t2,
            daughters_selected cfg t2,
            fl_less (fl_abs (Rapidity T (pair_vector db T t1 t2))) (Fin 0.5)]
       else []) pair)"

text \<open>The fills of one histogram among a sequence of fills, and the fills a run adds.\<close>

definition fills_named :: "string \<Rightarrow> fill_event list \<Rightarrow> fill_event list" where
  "fills_named name evs = filter (\<lambda>e. case e of Fill r n vals \<Rightarrow> r = histos \<and> n = name) evs"

definition new_fills :: "'v task_state \<Rightarrow> 'v task_state \<Rightarrow> fill_event list" where
  "new_fills s s' = drop (length (fills s)) (fills s')"

text \<open>The monitoring fills of the two scans and of \<open>SelectionV0\<close>.\<close>

definition track_events :: "config \<Rightarrow> track \<Rightarrow> fill_event list" where
  "track_events cfg track1 =
     (if QAbefore cfg then
        [Fill histos ''hNsigmaPionTPC_before'' [tpcNSigmaPi track1],
         Fill histos ''hNsigmaPionTOF_before'' [tofNSigmaPi track1]]
      else []) @
     (if selectionPID cfg track1 \<and> selectionTrack cfg track1 \<and> QAafter cfg then
        [Fill histos ''hEta_after'' [track.eta track1],
         Fill histos ''hDcaxy_after'' [dcaXY track1],
         Fill histos ''hDcaz_after'' [dcaZ track1],
         Fill histos ''hNsigmaPionTPC_after'' [tpcNSigmaPi track1],
         Fill histos ''hNsigmaPionTOF_after'' [tofNSigmaPi track1]]
      else [])"

definition v0_events :: "pdg \<Rightarrow> config \<Rightarrow> collision \<Rightarrow> fl \<Rightarrow> v0 \<Rightarrow> fill_event list" where
  "v0_events db cfg collision multiplicity candidate =
     (if V0_accepted db cfg collision candidate \<and> QAv0 cfg then
        [Fill histos ''hLT'' [CtauK0s db collision candidate],
         Fill histos ''hMassvsptvsmult''
           [mK0Short candidate, v0.pt candidate, multiplicity],
         Fill histos ''hDCAV0Daughters'' [dcaV0daughters candidate],
         Fill histos ''hV0CosPA'' [v0cosPA candidate]]
      else [])"

definition se_pair_events ::
  "pdg \<Rightarrow> 'v lorentz \<Rightarrow> fl \<Rightarrow> track \<Rightarrow> v0 \<Rightarrow> fill_event list" where
  "se_pair_events db L multiplicity t v =
     (if globalIndex t \<noteq> globalIndex (posTrack v) \<and>
         globalIndex t \<noteq> globalIndex (negTrack v) \<and>
         track.collisionId t = v0.collisionId v \<and>
         fl_less (fl_abs (Rapidity L (pair_vector db L t v))) (Fin 0.5)
      then [mass_fill ''h3CKSInvMassUnlikeSign'' L multiplicity (pair_vector db L t v)]
      else [])"

definition me_pair_events ::
  "pdg \<Rightarrow> 'w lorentz \<Rightarrow> config \<Rightarrow> collision \<Rightarrow> fl \<Rightarrow> track \<times> v0 \<Rightarrow> fill_event list" where
  "me_pair_events db T cfg c2 multiplicity = (\<lambda>(t1, t2).
     if selectionTrack cfg t1 \<and> selectionPID cfg t1 then
       v0_events db cfg c2 multiplicity t2 @
       (if V0_accepted db cfg c2 t2 \<and> daughters_selected cfg t2 \<and>
           fl_less (fl_abs (Rapidity T (pair_vector db T t1 t2))) (Fin 0.5)
        then [mass_fill ''h3CKSInvMassMixed'' T multiplicity (pair_vector db T t1 t2)]
        else [])
     else [])"

text \<open>Everything a run of \<open>processSE\<close> on an accepted collision adds, in order.\<close>

definition se_events ::
  "pdg \<Rightarrow> 'v lorentz \<Rightarrow> config \<Rightarrow> collision \<Rightarrow> track list \<Rightarrow> v0 list \<Rightarrow> fill_event list" where
  "se_events db L cfg collision tracks V0s =
     [Fill rEventSelection ''hVertexZRec'' [posZ collision],
      Fill rEventSelection ''hmult'' [event_multiplicity cfg collision]] @
     concat (map (track_events cfg) tracks) @
     concat (map (\<lambda>v. if daughters_selected cfg v
                       then v0_events db cfg collision (event_multiplicity cfg collision) v
                       else []) V0s) @
     concat (map (\<lambda>t. concat (map (se_pair_events db L (event_multiplicity cfg collision) t)
                                 (se_kshorts db cfg collision V0s)))
                 (se_pions cfg tracks))"

text \<open>Everything the mixed-event engine adds for one tuple of the pair generator.\<close>

definition me_events ::
  "pdg \<Rightarrow> 'w lorentz \<Rightarrow> config \<Rightarrow> collision \<times> track list \<times> collision \<times> v0 list \<Rightarrow>
   fill_event list" where
  "me_events db T cfg = (\<lambda>(c1, tracks1, c2, tracks2).
     if sel8 c1 \<and> sel8 c2 then
       concat (map (me_pair_events db T cfg c2 (event_multiplicity cfg c1))
                 (combinations_full tracks1 tracks2))
     else [])"

text \<open>The local vectors hold the columns of the kept rows.\<close>

definition vectors_of ::
  "pdg \<Rightarrow> 'v lorentz \<Rightarrow> track list \<Rightarrow> v0 list \<Rightarrow> 'v se_vectors" where
  "vectors_of db L P K =
     \<lparr> pions = map (pion_vector db L) P,
       kshorts = map (kshort_vector db L) K,
       PionIndex = map globalIndex P,
       PioncollIndex = map track.collisionId P,
       V0collIndex = map v0.collisionId K,
       KshortPosDaughIndex = map (\<lambda>v. globalIndex (posTrack v)) K,
       KshortNegDaughIndex = map (\<lambda>v. globalIndex (negTrack v)) K \<rparr>"

section \<open>Sample data\<close>

text \<open>
  A stand-in for the vector class, to run the engines on the sample rows: the four
  coordinates as they are given, added one by one, with the second read as rapidity.
\<close>

definition sample_lorentz :: "(fl \<times> fl \<times> fl \<times> fl) lorentz" where
  "sample_lorentz =
     \<lparr> PtEtaPhiM = (\<lambda>pt eta phi m. (pt, eta, phi, m)),
       plus4 = (\<lambda>(a, b, c, d) (a', b', c', d').
                  (fl_add a a', fl_add b b', fl_add c c', fl_add d d')),
       Rapidity = (\<lambda>(a, b, c, d). b),
       Pt = (\<lambda>(a, b, c, d). a),
       M = (\<lambda>(a, b, c, d). d) \<rparr>"

definition sample_state :: "(fl \<times> fl \<times> fl \<times> fl) task_state" where
  "sample_state = \<lparr> CKSVector = (Fin 0, Fin 0, Fin 0, Fin 0), fills = [] \<rparr>"

text \<open>
  Concrete rows on which the statements below are evaluated: a pion candidate, a collision,
  and a V0 whose daughters are two further tracks; all of them pass every cut of the
  default configuration. Every value is a float, the masses of the particle database are
  doubles.
\<close>

definition pdg_values :: pdg where
  "pdg_values = \<lparr> mass_kPiPlus = double_lit 0.13957, mass_kK0Short = double_lit 0.497614 \<rparr>"

definition example_track :: track where
  "example_track =
     \<lparr> globalIndex = 1, track.collisionId = 7, track.pt = Fin 0.75, track.eta = Fin 0.125,
       track.phi = Fin 1, sign = 1, isGlobalTrack = True, isGlobalTrackWoDCA = True,
       isPVContributor = True, itsNCls = 7, dcaXY = Fin 0.125, dcaZ = Fin 0.125,
       hasTOF = True, hasTPC = True, tofNSigmaPi = Fin 1, tpcNSigmaPi = Fin 2,
       tpcNClsCrossedRows = 120, tpcCrossedRowsOverFindableCls = Fin 0.9375,
       tpcNClsFound = 110 \<rparr>"

definition example_collision :: collision where
  "example_collision =
     \<lparr> posX = Fin 0, posY = Fin 0, posZ = Fin 1.5, sel8 = True, multZeqFT0A = Fin 100,
       multZeqFT0C = Fin 80, centFT0C = Fin 30, centFT0M = Fin 32, numContrib = 40 \<rparr>"

definition example_v0 :: v0 where
  "example_v0 =
     \<lparr> v0.collisionId = 7, v0.pt = Fin 1.5, v0.eta = Fin 0.25, v0.phi = Fin 2,
       posTrack = example_track\<lparr>globalIndex := 2, hasTOF := False\<rparr>,
       negTrack = example_track\<lparr>globalIndex := 3, sign := - 1, hasTOF := False\<rparr>,
       dcav0topv = Fin 0.125, yK0Short = Fin 0.25, qtarm = Fin 0.125, alpha = Fin 0.5,
       v0radius = Fin 5, dcaV0daughters = Fin 0.25, v0cosPA = Fin (1023 / 1024),
       distovertotmom = (\<lambda>x y z. Fin 4), mK0Short = to_float (double_lit 0.497) \<rparr>"

definition no_fills :: "unit task_state" where
  "no_fills = \<lparr> CKSVector = (), fills = [] \<rparr>"

text \<open>
  A V0 whose positive daughter is the sample pion, a second pion candidate at larger
  pseudorapidity, a pion candidate whose TOF deviation is one step of the float grid below
  3, and two further collisions.
\<close>

definition example_v0_shared :: v0 where
  "example_v0_shared = example_v0\<lparr>posTrack := (posTrack example_v0)\<lparr>globalIndex := 1\<rparr>\<rparr>"

definition example_track_forward :: track where
  "example_track_forward = example_track\<lparr>globalIndex := 5, track.eta := Fin 0.75\<rparr>"

definition example_track_edge :: track where
  "example_track_edge =
     example_track\<lparr>tofNSigmaPi := Fin (3 - 1 / 2 ^ 22), tpcNSigmaPi := Fin (1 / 2 ^ 10)\<rparr>"

definition collision_A :: collision where
  "collision_A = example_collision"

definition collision_B :: collision where
  "collision_B = example_collision\<lparr>posZ := Fin 1.75, numContrib := 42\<rparr>"

definition collision_C :: collision where
  "collision_C = example_collision\<lparr>posZ := Fin (- 3)\<rparr>"

section \<open>Facts about the numeric model\<close>

lemmas round_eval =
  ilog2.simps pow2_def rne_def round_mag_def binary32_def binary64_def Let_def

lemmas fl_defs =
  fl_less_def fl_greater_def fl_ge_def exact_add_def exact_sub_def exact_mult_def exact_div_def
  to_float_def fl_add_def fl_mult_def fl_div_def dbl_add_def dbl_sub_def dbl_mult_def
  float_lit_def double_lit_def mk_fin_def mk_zero_def mk_inf_def fl_iszero_def fl_of_int_def
  round_eval

text \<open>The literals of the default configuration and of the sample rows, rounded.\<close>

lemma default_config_eval:
  "default_config =
     \<lparr> QAbefore = False, QAafter = False, QAv0 = False,
       ConfV0PtMin = Fin 0, ConfV0DCADaughMax = Fin 1,
       ConfV0CPAMin = Fin (8262779 / 2 ^ 23),
       ConfV0TranRadV0Min = Fin 0.5, ConfV0TranRadV0Max = Fin 200,
       cMaxV0LifeTime = Fin 15, cMaxV0DCA = Fin (5404319552844595 / 2 ^ 54),
       cSigmaMassKs0 = Fin 4, cWidthKs0 = Fin (5764607523034235 / 2 ^ 60),
       ConfDaughEta = Fin (13421773 / 2 ^ 24), ConfDaughTPCnclsMin = Fin 70,
       ConfDaughDCAMin = Fin (16106127 / 2 ^ 28), ConfDaughPIDCuts = Fin 4,
       cfgCutDCAxy = Fin 2, cfgCutDCAz = Fin 2,
       nsigmaCutTPC = Fin 3, nsigmaCutCombined = Fin 3,
       cutzvertex = Fin 10, cfgCutPT = Fin (13421773 / 2 ^ 26),
       cfgCutEta = Fin (13421773 / 2 ^ 24),
       cfgNoMixedEvents = 5, cfgMultFT0 = False, cfgCentFT0C = True,
       iscustomDCAcut = False, ismanualDCAcut = True, cfgITScluster = 0 \<rparr>"
  by (simp add: default_config_def float_lit_def double_lit_def round_eval)

lemma pdg_values_eval:
  "pdg_values =
     \<lparr> mass_kPiPlus = Fin (5028539199936801 / 2 ^ 55),
       mass_kK0Short = Fin (1120527112487171 / 2 ^ 51) \<rparr>"
  by (simp add: pdg_values_def double_lit_def round_eval)

lemma nominal_mass_eval: "to_float (double_lit 0.497) = Fin (16676553 / 2 ^ 25)"
  by (simp add: to_float_def double_lit_def round_eval)

lemma example_v0_eval:
  "example_v0 =
     \<lparr> v0.collisionId = 7, v0.pt = Fin 1.5, v0.eta = Fin 0.25, v0.phi = Fin 2,
       posTrack = example_track\<lparr>globalIndex := 2, hasTOF := False\<rparr>,
       negTrack = example_track\<lparr>globalIndex := 3, sign := - 1, hasTOF := False\<rparr>,
       dcav0topv = Fin 0.125, yK0Short = Fin 0.25, qtarm = Fin 0.125, alpha = Fin 0.5,
       v0radius = Fin 5, dcaV0daughters = Fin 0.25, v0cosPA = Fin (1023 / 1024),
       distovertotmom = (\<lambda>x y z. Fin 4), mK0Short = Fin (16676553 / 2 ^ 25) \<rparr>"
  by (simp only: example_v0_def nominal_mass_eval)

lemmas example_defs =
  default_config_eval pdg_values_eval example_track_def example_collision_def example_v0_eval
  no_fills_def CtauK0s_def lowmasscutks0_def highmasscutks0_def

lemma fl_less_not_ge: "fl_less x y \<Longrightarrow> \<not> fl_ge x y"
  by (simp add: fl_ge_def)

lemma fl_less_special [simp]:
  "\<not> fl_less PInf y" "\<not> fl_less NaN y" "\<not> fl_less x NaN" "fl_less MInf (Fin r)"
  by (simp_all add: fl_less_def)

lemma fl_div_zero_cases:
  "fl_iszero y \<Longrightarrow> fl_div x y = PInf \<or> fl_div x y = MInf \<or> fl_div x y = NaN"
  by (cases x; cases y) (auto simp: fl_div_def exact_div_def fl_iszero_def mk_inf_def)

lemma fl_div_zero_MInf:
  "fl_iszero y \<Longrightarrow>
   (fl_div x y = MInf) = (x \<noteq> NaN \<and> \<not> fl_iszero x \<and> signbit x \<noteq> signbit y)"
  by (cases x; cases y) (auto simp: fl_div_def exact_div_def fl_iszero_def mk_inf_def)

subsection \<open>Rounding is monotone\<close>

lemma pow2_powr: "pow2 e = 2 powr (of_int e)"
proof (cases "0 \<le> e")
  case True
  then have "(2::real) powr (of_int e) = 2 powr (real (nat e))"
    by simp
  also have "\<dots> = 2 ^ nat e"
    by (rule powr_realpow) simp
  finally show ?thesis
    using True by (simp add: pow2_def)
next
  case False
  then have "(2::real) powr (of_int e) = 2 powr (- real (nat (- e)))"
    by simp
  also have "\<dots> = 1 / 2 powr (real (nat (- e)))"
    by (simp add: powr_minus_divide)
  also have "\<dots> = 1 / 2 ^ nat (- e)"
    by (simp add: powr_realpow)
  finally show ?thesis
    using False by (simp add: pow2_def)
qed

lemma pow2_pos [simp]: "0 < pow2 e"
  by (simp add: pow2_powr)

lemma pow2_add: "pow2 (a + b) = pow2 a * pow2 b"
  by (simp add: pow2_powr powr_add)

lemma pow2_mono: "a \<le> b \<Longrightarrow> pow2 a \<le> pow2 b"
  by (simp add: pow2_powr)

lemma pow2_less_iff: "pow2 a < pow2 b \<longleftrightarrow> a < b"
  by (simp add: pow2_powr)

lemma pow2_nat: "pow2 (int n) = 2 ^ n"
  by (simp add: pow2_def)

lemma pow2_Suc: "pow2 (e + 1) = 2 * pow2 e"
  by (simp add: pow2_add) (simp add: pow2_def)

lemma ilog2_bounds: "0 < x \<Longrightarrow> pow2 (ilog2 x) \<le> x \<and> x < pow2 (ilog2 x + 1)"
proof (induction x rule: ilog2.induct)
  case (1 x)
  show ?case
  proof (cases "2 \<le> x")
    case True
    then have e: "ilog2 x = ilog2 (x / 2) + 1"
      by (subst ilog2.simps) simp
    define k where "k = ilog2 (x / 2)"
    have ih: "pow2 k \<le> x / 2 \<and> x / 2 < pow2 (k + 1)"
      unfolding k_def using "1.IH"(1) [OF True] "1.prems" by simp
    have p1: "pow2 (k + 1) = 2 * pow2 k"
      by (rule pow2_Suc)
    have p2: "pow2 (k + 1 + 1) = 2 * pow2 (k + 1)"
      by (rule pow2_Suc)
    have "pow2 (k + 1) \<le> x \<and> x < pow2 (k + 1 + 1)"
      using ih p1 p2 by linarith
    then show ?thesis
      unfolding e k_def .
  next
    case False
    show ?thesis
    proof (cases "x < 1")
      case True
      with "1.prems" False have e: "ilog2 x = ilog2 (2 * x) - 1"
        by (subst ilog2.simps) simp
      define k where "k = ilog2 (2 * x) - 1"
      have k1: "ilog2 (2 * x) = k + 1"
        by (simp add: k_def)
      have ih: "pow2 (k + 1) \<le> 2 * x \<and> 2 * x < pow2 (k + 1 + 1)"
        unfolding k1 [symmetric] using "1.IH"(2) [OF False] True "1.prems" by simp
      have p1: "pow2 (k + 1) = 2 * pow2 k"
        by (rule pow2_Suc)
      have p2: "pow2 (k + 1 + 1) = 2 * pow2 (k + 1)"
        by (rule pow2_Suc)
      have "pow2 k \<le> x \<and> x < pow2 (k + 1)"
        using ih p1 p2 by linarith
      then show ?thesis
        unfolding e k_def .
    next
      case False
      with \<open>\<not> 2 \<le> x\<close> have e: "ilog2 x = 0"
        by (subst ilog2.simps) simp
      from False \<open>\<not> 2 \<le> x\<close> show ?thesis
        by (simp add: e pow2_def)
    qed
  qed
qed

lemma ilog2_mono: "0 < x \<Longrightarrow> x \<le> y \<Longrightarrow> ilog2 x \<le> ilog2 y"
proof -
  assume x: "0 < x" and xy: "x \<le> y"
  then have "pow2 (ilog2 x) \<le> x" "y < pow2 (ilog2 y + 1)"
    using ilog2_bounds [of x] ilog2_bounds [of y] by simp_all
  with xy have "pow2 (ilog2 x) < pow2 (ilog2 y + 1)"
    by linarith
  then show ?thesis
    by (simp add: pow2_less_iff)
qed

lemma rne_of_int [simp]: "rne (of_int n) = n"
  by (simp add: rne_def)

lemma rne_bounds: "\<lfloor>x\<rfloor> \<le> rne x \<and> rne x \<le> \<lfloor>x\<rfloor> + 1"
  by (simp add: rne_def Let_def)

lemma rne_mono: "x \<le> y \<Longrightarrow> rne x \<le> rne y"
proof -
  assume xy: "x \<le> y"
  then have f: "\<lfloor>x\<rfloor> \<le> \<lfloor>y\<rfloor>"
    by (rule floor_mono)
  show ?thesis
  proof (cases "\<lfloor>x\<rfloor> = \<lfloor>y\<rfloor>")
    case False
    with f have "\<lfloor>x\<rfloor> + 1 \<le> \<lfloor>y\<rfloor>"
      by simp
    then show ?thesis
      using rne_bounds [of x] rne_bounds [of y] by linarith
  next
    case True
    then show ?thesis
      using xy by (auto simp: rne_def Let_def)
  qed
qed

lemma pow2_diff: "pow2 a / pow2 b = pow2 (a - b)"
  by (simp add: pow2_powr powr_diff)

lemma round_mag_nonneg: "0 < x \<Longrightarrow> 0 \<le> round_mag F x"
proof -
  assume x: "0 < x"
  define u where "u = pow2 (max (emin F) (ilog2 x) - int (precision F) + 1)"
  have u: "0 < u"
    by (simp add: u_def)
  with x have "0 \<le> x / u"
    by simp
  then have "0 \<le> \<lfloor>x / u\<rfloor>"
    by simp
  then have "0 \<le> rne (x / u)"
    using rne_bounds [of "x / u"] by linarith
  then show ?thesis
    using u by (simp add: round_mag_def Let_def u_def [symmetric])
qed

lemma round_mag_mono:
  assumes x: "0 < x" and xy: "x \<le> y" and p: "0 < precision F"
  shows "round_mag F x \<le> round_mag F y"
proof -
  define ex where "ex = max (emin F) (ilog2 x)"
  define ey where "ey = max (emin F) (ilog2 y)"
  define ux where "ux = pow2 (ex - int (precision F) + 1)"
  define uy where "uy = pow2 (ey - int (precision F) + 1)"
  have rx: "round_mag F x = of_int (rne (x / ux)) * ux"
    by (simp add: round_mag_def Let_def ux_def ex_def)
  have ry: "round_mag F y = of_int (rne (y / uy)) * uy"
    by (simp add: round_mag_def Let_def uy_def ey_def)
  have ux: "0 < ux" and uy: "0 < uy"
    by (simp_all add: ux_def uy_def)
  from x xy have y: "0 < y"
    by simp
  have "ilog2 x \<le> ilog2 y"
    using x xy by (rule ilog2_mono)
  then have exy: "ex \<le> ey"
    by (simp add: ex_def ey_def)
  show ?thesis
  proof (cases "ex = ey")
    case True
    then have "ux = uy"
      by (simp add: ux_def uy_def)
    moreover have "x / uy \<le> y / uy"
      using xy uy by (simp add: divide_right_mono)
    then have "rne (x / uy) \<le> rne (y / uy)"
      by (rule rne_mono)
    ultimately show ?thesis
      using uy by (simp add: rx ry)
  next
    case False
    with exy have lt: "ex < ey"
      by simp
    then have eyl: "ey = ilog2 y"
      by (auto simp: ex_def ey_def max_def split: if_splits)
    have "x < pow2 (ilog2 x + 1)"
      using ilog2_bounds [OF x] by simp
    also have "\<dots> \<le> pow2 (ex + 1)"
      by (rule pow2_mono) (simp add: ex_def)
    finally have xb: "x < pow2 (ex + 1)" .
    have q1: "pow2 (ex + 1) / ux = of_int (2 ^ precision F)"
      by (simp add: ux_def pow2_diff pow2_nat)
    from xb ux have "x / ux \<le> pow2 (ex + 1) / ux"
      by (simp add: divide_right_mono)
    then have "rne (x / ux) \<le> rne (of_int (2 ^ precision F))"
      unfolding q1 by (rule rne_mono)
    then have "rne (x / ux) \<le> 2 ^ precision F"
      by (simp only: rne_of_int)
    then have "real_of_int (rne (x / ux)) \<le> of_int (2 ^ precision F)"
      by (simp only: of_int_le_iff)
    then have "real_of_int (rne (x / ux)) * ux \<le> of_int (2 ^ precision F) * ux"
      using ux by (simp add: mult_right_mono)
    also have "of_int (2 ^ precision F) * ux = pow2 (ex + 1)"
      using q1 ux by (simp add: field_simps)
    also have "\<dots> \<le> pow2 ey"
      by (rule pow2_mono) (use lt in simp)
    finally have low: "round_mag F x \<le> pow2 ey"
      by (simp add: rx)
    obtain n where n: "precision F = Suc n"
      using p by (cases "precision F") simp_all
    have q2: "pow2 ey / uy = of_int (2 ^ n)"
      using pow2_nat [of n] by (simp add: uy_def pow2_diff n)
    have "pow2 ey \<le> y"
      using ilog2_bounds [OF y] by (simp add: eyl)
    then have "pow2 ey / uy \<le> y / uy"
      using uy by (simp add: divide_right_mono)
    then have "rne (of_int (2 ^ n)) \<le> rne (y / uy)"
      unfolding q2 by (rule rne_mono)
    then have "2 ^ n \<le> rne (y / uy)"
      by (simp only: rne_of_int)
    then have "of_int (2 ^ n) \<le> real_of_int (rne (y / uy))"
      by (simp only: of_int_le_iff)
    then have "of_int (2 ^ n) * uy \<le> real_of_int (rne (y / uy)) * uy"
      using uy by (simp add: mult_right_mono)
    moreover have "of_int (2 ^ n) * uy = pow2 ey"
      using q2 uy by (simp add: field_simps)
    ultimately have "pow2 ey \<le> round_mag F y"
      by (simp add: ry)
    with low show ?thesis
      by linarith
  qed
qed

lemma round_fl_pos:
  "0 < r \<Longrightarrow> round_fl F (Fin r) =
     (if pow2 (emax F + 1) \<le> round_mag F r then PInf else Fin (round_mag F r))"
  by (simp add: Let_def mk_inf_def mk_zero_def)

lemma round_fl_neg:
  "r < 0 \<Longrightarrow> round_fl F (Fin r) =
     (if pow2 (emax F + 1) \<le> round_mag F (- r) then MInf
      else if round_mag F (- r) = 0 then NegZero else Fin (- round_mag F (- r)))"
  by (simp add: Let_def mk_inf_def mk_zero_def)

lemma round_fl_not_NaN: "x \<noteq> NaN \<Longrightarrow> round_fl F x \<noteq> NaN"
  by (cases x) (simp_all add: Let_def mk_inf_def mk_zero_def)

text \<open>The sign of a rounded value: never above zero for a negative, never below for a positive.\<close>

lemma round_fl_pos_ge: "0 < r \<Longrightarrow> 0 < precision F \<Longrightarrow> fl_ge (round_fl F (Fin r)) (Fin 0)"
  using round_mag_nonneg [of r F] by (simp add: round_fl_pos fl_ge_def fl_less_def del: round_fl.simps)

lemma round_fl_neg_le: "r < 0 \<Longrightarrow> 0 < precision F \<Longrightarrow> fl_ge (Fin 0) (round_fl F (Fin r))"
  using round_mag_nonneg [of "- r" F] by (simp add: round_fl_neg fl_ge_def fl_less_def del: round_fl.simps)

lemma fl_ge_trans: "fl_ge x y \<Longrightarrow> fl_ge y z \<Longrightarrow> fl_ge x z"
  by (cases x; cases y; cases z) (auto simp: fl_ge_def fl_less_def split: if_splits)

lemma round_fl_mono_Fin:
  assumes p: "0 < precision F" and rs: "r \<le> s"
  shows "fl_ge (round_fl F (Fin s)) (round_fl F (Fin r))"
proof -
  consider (zz) "r = 0" "s = 0" | (zp) "r = 0" "0 < s" | (nz) "r < 0" "s = 0"
    | (np) "r < 0" "0 < s" | (pp) "0 < r" "0 < s" | (nn) "r < 0" "s < 0"
    using rs by linarith
  then show ?thesis
  proof cases
    case zz
    then show ?thesis by (simp add: fl_ge_def fl_less_def)
  next
    case zp
    then show ?thesis using round_fl_pos_ge [OF zp(2) p] by simp
  next
    case nz
    then show ?thesis using round_fl_neg_le [OF nz(1) p] by simp
  next
    case np
    show ?thesis
      using round_fl_pos_ge [OF np(2) p] round_fl_neg_le [OF np(1) p] by (rule fl_ge_trans)
  next
    case pp
    have "round_mag F r \<le> round_mag F s"
      using pp(1) rs p by (rule round_mag_mono)
    then show ?thesis
      using pp by (auto simp add: round_fl_pos fl_ge_def fl_less_def simp del: round_fl.simps)
  next
    case nn
    have "round_mag F (- s) \<le> round_mag F (- r)"
      by (rule round_mag_mono) (use nn rs p in simp_all)
    then show ?thesis
      using nn round_mag_nonneg [of "- s" F] round_mag_nonneg [of "- r" F]
      by (auto simp add: round_fl_neg fl_ge_def fl_less_def simp del: round_fl.simps)
  qed
qed

lemma round_fl_mono:
  assumes p: "0 < precision F" and xy: "fl_ge y x"
  shows "fl_ge (round_fl F y) (round_fl F x)"
proof -
  have fin: "fl_ge (round_fl F (Fin s)) (round_fl F (Fin r))" if "r \<le> s" for r s
    using p that by (rule round_fl_mono_Fin)
  have inf_hi: "fl_ge PInf (round_fl F z)" if "z \<noteq> NaN" for z
    using round_fl_not_NaN [OF that, of F] by (auto simp: fl_ge_def fl_less_def)
  have inf_lo: "fl_ge (round_fl F z) MInf" if "z \<noteq> NaN" for z
    using round_fl_not_NaN [OF that, of F] by (auto simp: fl_ge_def fl_less_def)
  have nz_hi: "fl_ge (round_fl F (Fin s)) NegZero" if "0 \<le> s" for s
    using fin [of 0 s] that by (auto simp: fl_ge_def fl_less_def)
  have nz_lo: "fl_ge NegZero (round_fl F (Fin r))" if "r \<le> 0" for r
    using fin [of r 0] that by (auto simp: fl_ge_def fl_less_def)
  show ?thesis
  proof (cases x)
    case (Fin r)
    show ?thesis
    proof (cases y)
      case (Fin s)
      with \<open>x = Fin r\<close> xy have "r \<le> s"
        by (simp add: fl_ge_def fl_less_def)
      then show ?thesis
        using fin Fin \<open>x = Fin r\<close> by simp
    next
      case NegZero
      with \<open>x = Fin r\<close> xy have "r \<le> 0"
        by (simp add: fl_ge_def fl_less_def)
      then show ?thesis
        using nz_lo NegZero \<open>x = Fin r\<close> by simp
    next
      case PInf
      then show ?thesis using inf_hi [of x] \<open>x = Fin r\<close> by simp
    next
      case MInf
      with \<open>x = Fin r\<close> xy show ?thesis by (simp add: fl_ge_def fl_less_def)
    next
      case NaN
      with xy show ?thesis by (simp add: fl_ge_def)
    qed
  next
    case NegZero
    show ?thesis
    proof (cases y)
      case (Fin s)
      with \<open>x = NegZero\<close> xy have "0 \<le> s"
        by (simp add: fl_ge_def fl_less_def)
      then show ?thesis
        using nz_hi Fin \<open>x = NegZero\<close> by simp
    next
      case NegZero
      with \<open>x = NegZero\<close> show ?thesis by (simp add: fl_ge_def fl_less_def)
    next
      case PInf
      with \<open>x = NegZero\<close> show ?thesis by (simp add: fl_ge_def fl_less_def)
    next
      case MInf
      with \<open>x = NegZero\<close> xy show ?thesis by (simp add: fl_ge_def fl_less_def)
    next
      case NaN
      with xy show ?thesis by (simp add: fl_ge_def)
    qed
  next
    case PInf
    with xy have "y = PInf"
      by (cases y) (simp_all add: fl_ge_def fl_less_def)
    with PInf show ?thesis by (simp add: fl_ge_def fl_less_def)
  next
    case MInf
    with xy have "y \<noteq> NaN"
      by (simp add: fl_ge_def)
    then show ?thesis
      using inf_lo MInf by simp
  next
    case NaN
    with xy show ?thesis by (simp add: fl_ge_def)
  qed
qed

subsection \<open>The mass window holds its centre\<close>

lemma precision_binary [simp]: "0 < precision binary32" "0 < precision binary64"
  by (simp_all add: binary32_def binary64_def)

lemma exact_sub_le: "0 < c \<Longrightarrow> fl_ge w (Fin 0) \<Longrightarrow> fl_ge (Fin c) (exact_sub (Fin c) w)"
  by (cases w) (auto simp: exact_sub_def exact_add_def mk_zero_def fl_ge_def fl_less_def)

lemma exact_add_ge: "0 < c \<Longrightarrow> fl_ge w (Fin 0) \<Longrightarrow> fl_ge (exact_add (Fin c) w) (Fin c)"
  by (cases w) (auto simp: exact_add_def mk_zero_def fl_ge_def fl_less_def)

lemma centre_value:
  "double_lit 0.497 = Fin (4476578029606273 / 2 ^ 53)"
  "round_fl binary64 (Fin (4476578029606273 / 2 ^ 53)) = Fin (4476578029606273 / 2 ^ 53)"
  by (simp_all add: double_lit_def round_eval)

lemma window_low_below_centre:
  assumes "fl_ge w (Fin 0)"
  shows "\<not> fl_less (to_float (double_lit 0.497)) (to_float (dbl_sub (double_lit 0.497) w))"
proof -
  let ?c = "4476578029606273 / 2 ^ 53 :: real"
  have "fl_ge (Fin ?c) (exact_sub (Fin ?c) w)"
    by (rule exact_sub_le) (use assms in simp_all)
  then have "fl_ge (round_fl binary64 (Fin ?c)) (round_fl binary64 (exact_sub (Fin ?c) w))"
    by (rule round_fl_mono [rotated]) simp
  then have "fl_ge (Fin ?c) (dbl_sub (Fin ?c) w)"
    by (simp only: centre_value dbl_sub_def)
  then have "fl_ge (round_fl binary32 (Fin ?c)) (round_fl binary32 (dbl_sub (Fin ?c) w))"
    by (rule round_fl_mono [rotated]) simp
  then show ?thesis
    by (simp only: centre_value to_float_def fl_ge_def) simp
qed

lemma window_high_above_centre:
  assumes "fl_ge w (Fin 0)"
  shows "\<not> fl_greater (to_float (double_lit 0.497)) (to_float (dbl_add (double_lit 0.497) w))"
proof -
  let ?c = "4476578029606273 / 2 ^ 53 :: real"
  have "fl_ge (exact_add (Fin ?c) w) (Fin ?c)"
    by (rule exact_add_ge) (use assms in simp_all)
  then have "fl_ge (round_fl binary64 (exact_add (Fin ?c) w)) (round_fl binary64 (Fin ?c))"
    by (rule round_fl_mono [rotated]) simp
  then have "fl_ge (dbl_add (Fin ?c) w) (Fin ?c)"
    by (simp only: centre_value dbl_add_def)
  then have "fl_ge (round_fl binary32 (dbl_add (Fin ?c) w)) (round_fl binary32 (Fin ?c))"
    by (rule round_fl_mono [rotated]) simp
  then show ?thesis
    by (simp only: centre_value to_float_def fl_ge_def fl_greater_def) simp
qed

lemma SelectionV0_verdict:
  "fst (SelectionV0 db cfg collision candidate multiplicity s) =
     V0_accepted db cfg collision candidate"
  by (simp add: SelectionV0_def V0_accepted_def Let_def)

section \<open>The selectors\<close>

text \<open>
  C1, as the code has it. \<open>SelectionV0\<close> does not test alpha. When alpha is a zero the
  division raises nothing and the ratio \<open>qtarm / alpha\<close> is plus infinity, minus infinity
  or NaN; it is minus infinity exactly when \<open>qtarm\<close> is a nonzero number whose sign bit
  differs from that of alpha. The cut \<open>arm < 0.2\<close> rejects the candidate only in that
  case: with a ratio of plus infinity or NaN the candidate is accepted whenever every
  other cut passes.
\<close>

theorem SelectionV0_zero_alpha:
  "fl_iszero (alpha candidate) \<Longrightarrow>
     (fl_div (qtarm candidate) (alpha candidate) = PInf \<or>
      fl_div (qtarm candidate) (alpha candidate) = MInf \<or>
      fl_div (qtarm candidate) (alpha candidate) = NaN) \<and>
     ((fl_div (qtarm candidate) (alpha candidate) = MInf) =
        (qtarm candidate \<noteq> NaN \<and> \<not> fl_iszero (qtarm candidate) \<and>
         signbit (qtarm candidate) \<noteq> signbit (alpha candidate))) \<and>
     (fst (SelectionV0 db cfg collision candidate multiplicity s) =
        (\<not> fl_greater (fl_abs (dcav0topv candidate)) (cMaxV0DCA cfg) \<and>
         \<not> fl_greater (fl_abs (yK0Short candidate)) (Fin 0.5) \<and>
         \<not> fl_less (v0.pt candidate) (ConfV0PtMin cfg) \<and>
         \<not> fl_greater (dcaV0daughters candidate) (ConfV0DCADaughMax cfg) \<and>
         \<not> fl_less (v0cosPA candidate) (ConfV0CPAMin cfg) \<and>
         \<not> fl_less (v0radius candidate) (ConfV0TranRadV0Min cfg) \<and>
         \<not> fl_greater (v0radius candidate) (ConfV0TranRadV0Max cfg) \<and>
         \<not> fl_greater (fl_abs (CtauK0s db collision candidate)) (cMaxV0LifeTime cfg) \<and>
         \<not> fl_less (mK0Short candidate) (lowmasscutks0 cfg) \<and>
         \<not> fl_greater (mK0Short candidate) (highmasscutks0 cfg) \<and>
         fl_div (qtarm candidate) (alpha candidate) \<noteq> MInf))"
proof -
  assume z: "fl_iszero (alpha candidate)"
  let ?arm = "fl_div (qtarm candidate) (alpha candidate)"
  have c: "?arm = PInf \<or> ?arm = MInf \<or> ?arm = NaN"
    using z by (rule fl_div_zero_cases)
  have m: "(?arm = MInf) = (qtarm candidate \<noteq> NaN \<and> \<not> fl_iszero (qtarm candidate) \<and>
         signbit (qtarm candidate) \<noteq> signbit (alpha candidate))"
    using z by (rule fl_div_zero_MInf)
  have l: "fl_less ?arm (Fin 0.2) = (?arm = MInf)"
    using c by auto
  show ?thesis
    using c m l by (simp add: SelectionV0_verdict V0_accepted_def)
qed

text \<open>
  The sample V0 with alpha set to the positive zero: the ratio is plus infinity and the
  candidate is accepted.
\<close>

theorem SelectionV0_zero_alpha_witness:
  "fl_iszero (alpha (example_v0\<lparr>alpha := Fin 0\<rparr>)) \<and>
   fl_div (qtarm (example_v0\<lparr>alpha := Fin 0\<rparr>)) (alpha (example_v0\<lparr>alpha := Fin 0\<rparr>)) = PInf \<and>
   fst (SelectionV0 pdg_values default_config example_collision
          (example_v0\<lparr>alpha := Fin 0\<rparr>) (Fin 30) no_fills)"
proof -
  have z: "fl_iszero (alpha (example_v0\<lparr>alpha := Fin 0\<rparr>))"
    by (simp add: fl_iszero_def)
  show ?thesis
    using z SelectionV0_zero_alpha [OF z, of pdg_values default_config example_collision
        "Fin 30" no_fills]
    by (simp add: example_defs fl_defs)
qed

text \<open>
  C1 as the spec states it fails: a candidate whose alpha equals 0 and which passes the
  other cuts is accepted.
\<close>

theorem SelectionV0_zero_alpha_accepted:
  "alpha (example_v0\<lparr>alpha := Fin 0\<rparr>) = Fin 0 \<and>
   fst (SelectionV0 pdg_values default_config example_collision
          (example_v0\<lparr>alpha := Fin 0\<rparr>) (Fin 30) no_fills) = True"
  by (simp add: SelectionV0_def example_defs fl_defs Let_def)

text \<open>
  C2, as the code has it. The bounds of the window are the floats \<open>lowmasscutks0\<close> and
  \<open>highmasscutks0\<close>: \<open>0.497 - cWidthKs0 * cSigmaMassKs0\<close> and
  \<open>0.497 + cWidthKs0 * cSigmaMassKs0\<close>, computed in double and rounded to float. A
  candidate whose mass is below the first or above the second is rejected. When the product
  of the two configurables, computed in double, is not negative, a candidate whose mass is
  the float nearest to 0.497 and which passes every other cut is accepted.
\<close>

theorem SelectionV0_mass_window:
  "(fl_less (mK0Short candidate)
       (to_float (dbl_sub (double_lit 0.497) (dbl_mult (cWidthKs0 cfg) (cSigmaMassKs0 cfg)))) \<or>
    fl_greater (mK0Short candidate)
       (to_float (dbl_add (double_lit 0.497) (dbl_mult (cWidthKs0 cfg) (cSigmaMassKs0 cfg))))
    \<longrightarrow> fst (SelectionV0 db cfg collision candidate multiplicity s) = False) \<and>
   (fl_ge (dbl_mult (cWidthKs0 cfg) (cSigmaMassKs0 cfg)) (Fin 0) \<and>
    mK0Short candidate = to_float (double_lit 0.497) \<and>
    \<not> fl_greater (fl_abs (dcav0topv candidate)) (cMaxV0DCA cfg) \<and>
    \<not> fl_greater (fl_abs (yK0Short candidate)) (Fin 0.5) \<and>
    \<not> fl_less (v0.pt candidate) (ConfV0PtMin cfg) \<and>
    \<not> fl_greater (dcaV0daughters candidate) (ConfV0DCADaughMax cfg) \<and>
    \<not> fl_less (v0cosPA candidate) (ConfV0CPAMin cfg) \<and>
    \<not> fl_less (v0radius candidate) (ConfV0TranRadV0Min cfg) \<and>
    \<not> fl_greater (v0radius candidate) (ConfV0TranRadV0Max cfg) \<and>
    \<not> fl_greater (fl_abs (CtauK0s db collision candidate)) (cMaxV0LifeTime cfg) \<and>
    \<not> fl_less (fl_div (qtarm candidate) (alpha candidate)) (Fin 0.2)
    \<longrightarrow> fst (SelectionV0 db cfg collision candidate multiplicity s) = True)"
proof (intro conjI impI)
  assume "fl_less (mK0Short candidate)
       (to_float (dbl_sub (double_lit 0.497) (dbl_mult (cWidthKs0 cfg) (cSigmaMassKs0 cfg)))) \<or>
    fl_greater (mK0Short candidate)
       (to_float (dbl_add (double_lit 0.497) (dbl_mult (cWidthKs0 cfg) (cSigmaMassKs0 cfg))))"
  then show "fst (SelectionV0 db cfg collision candidate multiplicity s) = False"
    by (auto simp: SelectionV0_verdict V0_accepted_def lowmasscutks0_def highmasscutks0_def)
next
  assume a: "fl_ge (dbl_mult (cWidthKs0 cfg) (cSigmaMassKs0 cfg)) (Fin 0) \<and>
    mK0Short candidate = to_float (double_lit 0.497) \<and>
    \<not> fl_greater (fl_abs (dcav0topv candidate)) (cMaxV0DCA cfg) \<and>
    \<not> fl_greater (fl_abs (yK0Short candidate)) (Fin 0.5) \<and>
    \<not> fl_less (v0.pt candidate) (ConfV0PtMin cfg) \<and>
    \<not> fl_greater (dcaV0daughters candidate) (ConfV0DCADaughMax cfg) \<and>
    \<not> fl_less (v0cosPA candidate) (ConfV0CPAMin cfg) \<and>
    \<not> fl_less (v0radius candidate) (ConfV0TranRadV0Min cfg) \<and>
    \<not> fl_greater (v0radius candidate) (ConfV0TranRadV0Max cfg) \<and>
    \<not> fl_greater (fl_abs (CtauK0s db collision candidate)) (cMaxV0LifeTime cfg) \<and>
    \<not> fl_less (fl_div (qtarm candidate) (alpha candidate)) (Fin 0.2)"
  then have w: "fl_ge (dbl_mult (cWidthKs0 cfg) (cSigmaMassKs0 cfg)) (Fin 0)"
    by simp
  have lo: "\<not> fl_less (to_float (double_lit 0.497)) (lowmasscutks0 cfg)"
    unfolding lowmasscutks0_def using w by (rule window_low_below_centre)
  have hi: "\<not> fl_greater (to_float (double_lit 0.497)) (highmasscutks0 cfg)"
    unfolding highmasscutks0_def using w by (rule window_high_above_centre)
  show "fst (SelectionV0 db cfg collision candidate multiplicity s) = True"
    using a lo hi by (simp add: SelectionV0_verdict V0_accepted_def)
qed

text \<open>
  With the default configuration a mass of 0.46875 is below the lower bound and rejected;
  the sample V0, whose mass is the float nearest to 0.497, is accepted.
\<close>

theorem SelectionV0_mass_window_witness:
  "fl_less (mK0Short (example_v0\<lparr>mK0Short := Fin 0.46875\<rparr>))
       (to_float (dbl_sub (double_lit 0.497)
                    (dbl_mult (cWidthKs0 default_config) (cSigmaMassKs0 default_config)))) \<and>
   fst (SelectionV0 pdg_values default_config example_collision
          (example_v0\<lparr>mK0Short := Fin 0.46875\<rparr>) (Fin 30) no_fills) = False \<and>
   fl_ge (dbl_mult (cWidthKs0 default_config) (cSigmaMassKs0 default_config)) (Fin 0) \<and>
   mK0Short example_v0 = to_float (double_lit 0.497) \<and>
   fst (SelectionV0 pdg_values default_config example_collision example_v0 (Fin 30) no_fills)
     = True"
proof -
  have m: "mK0Short example_v0 = to_float (double_lit 0.497)"
    by (simp add: example_v0_def)
  have l: "fl_less (mK0Short (example_v0\<lparr>mK0Short := Fin 0.46875\<rparr>))
       (to_float (dbl_sub (double_lit 0.497)
                    (dbl_mult (cWidthKs0 default_config) (cSigmaMassKs0 default_config))))"
    by (simp add: default_config_eval fl_defs)
  show ?thesis
    using m l
        SelectionV0_mass_window [of "example_v0\<lparr>mK0Short := Fin 0.46875\<rparr>" default_config
          pdg_values example_collision "Fin 30" no_fills]
        SelectionV0_mass_window [of example_v0 default_config
          pdg_values example_collision "Fin 30" no_fills]
    by (simp add: example_defs fl_defs)
qed

text \<open>
  C2 as the spec states it fails at the edges of the default window. The float nearest to
  0.477 lies below 0.477, and below \<open>0.497 - cWidthKs0 * cSigmaMassKs0\<close> computed
  without rounding; the float nearest to 0.517 lies above 0.517 and above the upper bound
  computed without rounding. Both are the bounds that the code has stored, so a V0 with
  either mass that passes every other cut is accepted.
\<close>

theorem SelectionV0_accepts_outside_window:
  "fl_less (float_lit 0.477) (Fin 0.477) \<and>
   fl_less (float_lit 0.477)
     (exact_sub (Fin 0.497)
        (exact_mult (cWidthKs0 default_config) (cSigmaMassKs0 default_config))) \<and>
   fl_less (float_lit 0.477)
     (exact_sub (double_lit 0.497)
        (exact_mult (cWidthKs0 default_config) (cSigmaMassKs0 default_config))) \<and>
   fst (SelectionV0 pdg_values default_config example_collision
          (example_v0\<lparr>mK0Short := float_lit 0.477\<rparr>) (Fin 30) no_fills) = True \<and>
   fl_greater (float_lit 0.517) (Fin 0.517) \<and>
   fl_greater (float_lit 0.517)
     (exact_add (Fin 0.497)
        (exact_mult (cWidthKs0 default_config) (cSigmaMassKs0 default_config))) \<and>
   fl_greater (float_lit 0.517)
     (exact_add (double_lit 0.497)
        (exact_mult (cWidthKs0 default_config) (cSigmaMassKs0 default_config))) \<and>
   fst (SelectionV0 pdg_values default_config example_collision
          (example_v0\<lparr>mK0Short := float_lit 0.517\<rparr>) (Fin 30) no_fills) = True"
proof -
  have lo: "float_lit 0.477 = Fin (2000683 / 2 ^ 22)"
    by (simp add: float_lit_def round_eval)
  have hi: "float_lit 0.517 = Fin (8673821 / 2 ^ 24)"
    by (simp add: float_lit_def round_eval)
  show ?thesis
    unfolding lo hi
    by (simp add: SelectionV0_def example_defs fl_defs)
qed

text \<open>
  C6. \<open>selectionTrack\<close> is called on rows of \<open>TrackCandidates\<close>. For such a row, with
  \<open>iscustomDCAcut\<close> set, it returns true exactly when the track is a global track, a
  contributor to the primary vertex, or has more ITS clusters than \<open>cfgITScluster\<close>, and
  false exactly when all three fail. This holds whether \<open>ismanualDCAcut\<close> is set or not:
  the row has passed \<open>DCAcutFilter\<close>, whose two conditions are conditions of the second
  policy with the same cuts.
\<close>

theorem selectionTrack_policy_A:
  "iscustomDCAcut cfg \<Longrightarrow> TrackCandidates cfg candidate \<Longrightarrow>
     (selectionTrack cfg candidate =
        (isGlobalTrack candidate \<or> isPVContributor candidate \<or>
         itsNCls candidate > cfgITScluster cfg)) \<and>
     ((\<not> selectionTrack cfg candidate) =
        (\<not> isGlobalTrack candidate \<and> \<not> isPVContributor candidate \<and>
         \<not> itsNCls candidate > cfgITScluster cfg))"
  by (auto simp: selectionTrack_def TrackCandidates_def DCAcutFilter_def)

text \<open>
  The sample track is a row of \<open>TrackCandidates\<close> and is selected, with the first policy
  alone and with both; the same row with the three conditions cleared is rejected.
\<close>

theorem selectionTrack_policy_A_witness:
  "iscustomDCAcut (default_config\<lparr>iscustomDCAcut := True, ismanualDCAcut := False\<rparr>) \<and>
   TrackCandidates (default_config\<lparr>iscustomDCAcut := True, ismanualDCAcut := False\<rparr>)
     example_track \<and>
   selectionTrack (default_config\<lparr>iscustomDCAcut := True, ismanualDCAcut := False\<rparr>)
     example_track \<and>
   iscustomDCAcut (default_config\<lparr>iscustomDCAcut := True\<rparr>) \<and>
   ismanualDCAcut (default_config\<lparr>iscustomDCAcut := True\<rparr>) \<and>
   TrackCandidates (default_config\<lparr>iscustomDCAcut := True\<rparr>) example_track \<and>
   selectionTrack (default_config\<lparr>iscustomDCAcut := True\<rparr>) example_track \<and>
   TrackCandidates (default_config\<lparr>iscustomDCAcut := True\<rparr>)
     (example_track\<lparr>isGlobalTrack := False, isPVContributor := False, itsNCls := 0\<rparr>) \<and>
   \<not> selectionTrack (default_config\<lparr>iscustomDCAcut := True\<rparr>)
       (example_track\<lparr>isGlobalTrack := False, isPVContributor := False, itsNCls := 0\<rparr>)"
proof -
  have t: "TrackCandidates (default_config\<lparr>iscustomDCAcut := True, ismanualDCAcut := False\<rparr>)
             example_track"
    "TrackCandidates (default_config\<lparr>iscustomDCAcut := True\<rparr>) example_track"
    "TrackCandidates (default_config\<lparr>iscustomDCAcut := True\<rparr>)
       (example_track\<lparr>isGlobalTrack := False, isPVContributor := False, itsNCls := 0\<rparr>)"
    by (simp_all add: TrackCandidates_def acceptanceFilter_def DCAcutFilter_def example_defs
          fl_less_def fl_greater_def)
  show ?thesis
    using t
      selectionTrack_policy_A
        [OF _ t(1)]
      selectionTrack_policy_A [OF _ t(2)]
      selectionTrack_policy_A [OF _ t(3)]
    by (simp add: example_defs)
qed

text \<open>
  C7, as the code has it. \<open>selectionPID\<close> returns true exactly when the candidate has a
  TOF measurement and the sum of the squares of its TOF and TPC pion deviations is below
  the square of \<open>nsigmaCutCombined\<close>, the two squares, the sum and the square of the cut
  each computed in float, or it has no TOF measurement and the absolute value of its TPC
  pion deviation is below \<open>nsigmaCutTPC\<close>.
\<close>

theorem selectionPID_iff:
  "selectionPID cfg candidate =
     ((hasTOF candidate \<and>
       fl_less (fl_add (fl_mult (tofNSigmaPi candidate) (tofNSigmaPi candidate))
                       (fl_mult (tpcNSigmaPi candidate) (tpcNSigmaPi candidate)))
               (fl_mult (nsigmaCutCombined cfg) (nsigmaCutCombined cfg))) \<or>
      (\<not> hasTOF candidate \<and>
       fl_less (fl_abs (tpcNSigmaPi candidate)) (nsigmaCutTPC cfg)))"
  by (auto simp: selectionPID_def)

text \<open>
  With TOF, deviations 1 and 2 pass and 2.5 and 2 fail; without TOF the same TPC deviation
  of 2 passes. With the cut at \<open>2^64\<close> its square is plus infinity in float, and so is
  the square of a TOF deviation of \<open>2^64\<close>: the candidate fails.
\<close>

theorem selectionPID_iff_witness:
  "hasTOF example_track \<and> selectionPID default_config example_track \<and>
   \<not> selectionPID default_config (example_track\<lparr>tofNSigmaPi := Fin 2.5\<rparr>) \<and>
   \<not> hasTOF (example_track\<lparr>hasTOF := False, tofNSigmaPi := Fin 2.5\<rparr>) \<and>
   selectionPID default_config (example_track\<lparr>hasTOF := False, tofNSigmaPi := Fin 2.5\<rparr>) \<and>
   fl_mult (Fin (2 ^ 64)) (Fin (2 ^ 64)) = PInf \<and>
   \<not> selectionPID (default_config\<lparr>nsigmaCutCombined := Fin (2 ^ 64)\<rparr>)
       (example_track\<lparr>tofNSigmaPi := Fin (2 ^ 64)\<rparr>)"
  using selectionPID_iff [of default_config example_track]
        selectionPID_iff [of default_config "example_track\<lparr>tofNSigmaPi := Fin 2.5\<rparr>"]
        selectionPID_iff [of default_config
                            "example_track\<lparr>hasTOF := False, tofNSigmaPi := Fin 2.5\<rparr>"]
        selectionPID_iff [of "default_config\<lparr>nsigmaCutCombined := Fin (2 ^ 64)\<rparr>"
                            "example_track\<lparr>tofNSigmaPi := Fin (2 ^ 64)\<rparr>"]
  by (simp add: example_defs fl_defs)

text \<open>
  C7 as the spec states it fails where the float sum rounds up to the square of the cut.
  For a TOF deviation of \<open>3 - 2^-22\<close> and a TPC deviation of \<open>2^-10\<close> the sum of the
  squares is below 9, the square of the default cut; in float the first square is
  \<open>9 - 2^-20\<close>, the second \<open>2^-20\<close> and the sum 9, which is not below 9, so the
  candidate is rejected.
\<close>

theorem selectionPID_rounded_sum:
  "hasTOF example_track_edge \<and>
   fl_less
     (exact_add
        (exact_mult (tofNSigmaPi example_track_edge) (tofNSigmaPi example_track_edge))
        (exact_mult (tpcNSigmaPi example_track_edge) (tpcNSigmaPi example_track_edge)))
     (exact_mult (nsigmaCutCombined default_config) (nsigmaCutCombined default_config)) \<and>
   fl_add
     (fl_mult (tofNSigmaPi example_track_edge) (tofNSigmaPi example_track_edge))
     (fl_mult (tpcNSigmaPi example_track_edge) (tpcNSigmaPi example_track_edge)) = Fin 9 \<and>
   selectionPID default_config example_track_edge = False"
  by (simp add: selectionPID_def example_track_edge_def example_defs fl_defs)

text \<open>
  C10. For a track whose sign is 0 the verdict of \<open>isSelectedV0Daughter\<close> is the
  conjunction of the checks that do not look at the charge, whatever charge is requested.
  In general the two charge checks reject only a negative request on a positive sign and
  a positive request on a negative sign.
\<close>

theorem isSelectedV0Daughter_zero_sign:
  "(sign track = 0 \<longrightarrow>
      isSelectedV0Daughter cfg track charge nsigmaV0Daughter =
        (hasTPC track \<and> \<not> tpcNClsCrossedRows track < 70 \<and>
         \<not> fl_less (tpcCrossedRowsOverFindableCls track) (Fin 0.8) \<and>
         \<not> fl_greater (fl_abs (track.eta track)) (ConfDaughEta cfg) \<and>
         \<not> fl_less (fl_of_int (tpcNClsFound track)) (ConfDaughTPCnclsMin cfg) \<and>
         \<not> fl_less (fl_abs (dcaXY track)) (ConfDaughDCAMin cfg) \<and>
         \<not> fl_greater (fl_abs nsigmaV0Daughter) (ConfDaughPIDCuts cfg))) \<and>
   isSelectedV0Daughter cfg track charge nsigmaV0Daughter =
     (hasTPC track \<and> \<not> tpcNClsCrossedRows track < 70 \<and>
      \<not> fl_less (tpcCrossedRowsOverFindableCls track) (Fin 0.8) \<and>
      \<not> (fl_less charge (Fin 0) \<and> sign track > 0) \<and>
      \<not> (fl_greater charge (Fin 0) \<and> sign track < 0) \<and>
      \<not> fl_greater (fl_abs (track.eta track)) (ConfDaughEta cfg) \<and>
      \<not> fl_less (fl_of_int (tpcNClsFound track)) (ConfDaughTPCnclsMin cfg) \<and>
      \<not> fl_less (fl_abs (dcaXY track)) (ConfDaughDCAMin cfg) \<and>
      \<not> fl_greater (fl_abs nsigmaV0Daughter) (ConfDaughPIDCuts cfg))"
  by (auto simp: isSelectedV0Daughter_def Let_def)

text \<open>
  The sample track with sign 0 is selected as a positive and as a negative daughter; with
  its own sign 1 it is rejected as a negative daughter.
\<close>

theorem isSelectedV0Daughter_zero_sign_witness:
  "sign (example_track\<lparr>sign := 0\<rparr>) = 0 \<and>
   isSelectedV0Daughter default_config (example_track\<lparr>sign := 0\<rparr>) (Fin 1) (Fin 2) \<and>
   isSelectedV0Daughter default_config (example_track\<lparr>sign := 0\<rparr>) (Fin (- 1)) (Fin 2) \<and>
   \<not> isSelectedV0Daughter default_config example_track (Fin (- 1)) (Fin 2)"
  using isSelectedV0Daughter_zero_sign
          [of "example_track\<lparr>sign := 0\<rparr>" default_config "Fin 1" "Fin 2"]
        isSelectedV0Daughter_zero_sign
          [of "example_track\<lparr>sign := 0\<rparr>" default_config "Fin (- 1)" "Fin 2"]
        isSelectedV0Daughter_zero_sign [of example_track default_config "Fin (- 1)" "Fin 2"]
  by (simp add: example_defs fl_defs)

section \<open>The same-event engine\<close>

text \<open>
  The two scans fill the local vectors with the columns of the kept rows and add the
  monitoring fills; the pairing loops then never read outside a vector, and add the mass
  fills pair by pair.
\<close>

lemma SelectionV0_eq:
  "SelectionV0 db cfg collision candidate multiplicity s =
     (V0_accepted db cfg collision candidate,
      s\<lparr>fills := fills s @ v0_events db cfg collision multiplicity candidate\<rparr>)"
  by (simp add: SelectionV0_def V0_accepted_def v0_events_def Let_def)

lemma track_step_eq:
  "track_step db L cfg t (vs, s) =
     (if selectionPID cfg t \<and> selectionTrack cfg t then
        vs\<lparr>pions := pions vs @ [pion_vector db L t],
            PionIndex := PionIndex vs @ [globalIndex t],
            PioncollIndex := PioncollIndex vs @ [track.collisionId t]\<rparr>
      else vs,
      s\<lparr>fills := fills s @ track_events cfg t\<rparr>)"
  by (simp add: track_step_def track_events_def pion_vector_def Let_def)

lemma track_loop:
  "fold (track_step db L cfg) tracks (vs, s) =
     (vs\<lparr>pions := pions vs @ map (pion_vector db L) (se_pions cfg tracks),
          PionIndex := PionIndex vs @ map globalIndex (se_pions cfg tracks),
          PioncollIndex := PioncollIndex vs @ map track.collisionId (se_pions cfg tracks)\<rparr>,
      s\<lparr>fills := fills s @ concat (map (track_events cfg) tracks)\<rparr>)"
proof (induction tracks arbitrary: vs s)
  case Nil
  show ?case by (simp add: se_pions_def)
next
  case (Cons t tracks)
  show ?case
    by (simp add: track_step_eq Cons.IH se_pions_def)
qed

lemma v0_step_eq:
  "v0_step db L cfg collision m v (vs, s) =
     (if daughters_selected cfg v \<and> V0_accepted db cfg collision v then
        vs\<lparr>kshorts := kshorts vs @ [kshort_vector db L v],
            V0collIndex := V0collIndex vs @ [v0.collisionId v],
            KshortPosDaughIndex := KshortPosDaughIndex vs @ [globalIndex (posTrack v)],
            KshortNegDaughIndex := KshortNegDaughIndex vs @ [globalIndex (negTrack v)]\<rparr>
      else vs,
      s\<lparr>fills := fills s @
            (if daughters_selected cfg v then v0_events db cfg collision m v else [])\<rparr>)"
  by (simp add: v0_step_def SelectionV0_eq daughters_selected_def kshort_vector_def Let_def)

lemma v0_loop:
  "fold (v0_step db L cfg collision m) V0s (vs, s) =
     (vs\<lparr>kshorts := kshorts vs @ map (kshort_vector db L) (se_kshorts db cfg collision V0s),
          V0collIndex := V0collIndex vs @ map v0.collisionId (se_kshorts db cfg collision V0s),
          KshortPosDaughIndex := KshortPosDaughIndex vs @
             map (\<lambda>v. globalIndex (posTrack v)) (se_kshorts db cfg collision V0s),
          KshortNegDaughIndex := KshortNegDaughIndex vs @
             map (\<lambda>v. globalIndex (negTrack v)) (se_kshorts db cfg collision V0s)\<rparr>,
      s\<lparr>fills := fills s @
            concat (map (\<lambda>v. if daughters_selected cfg v
                              then v0_events db cfg collision m v else []) V0s)\<rparr>)"
proof (induction V0s arbitrary: vs s)
  case Nil
  show ?case by (simp add: se_kshorts_def)
next
  case (Cons v V0s)
  show ?case
    by (simp add: v0_step_eq Cons.IH se_kshorts_def)
qed

lemma for_each_fills:
  assumes "\<And>x s. x \<in> set xs \<Longrightarrow> \<exists>s'. body x s = Some s' \<and> fills s' = fills s @ ev x"
  shows "\<exists>s'. for_each body xs s = Some s' \<and> fills s' = fills s @ concat (map ev xs)"
  using assms
proof (induction xs arbitrary: s)
  case Nil
  show ?case by simp
next
  case (Cons x xs)
  from Cons.prems [of x s] obtain s1 where
    s1: "body x s = Some s1" "fills s1 = fills s @ ev x"
    by auto
  have "\<exists>s'. for_each body xs s1 = Some s' \<and> fills s' = fills s1 @ concat (map ev xs)"
    by (rule Cons.IH) (simp add: Cons.prems)
  then obtain s2 where
    s2: "for_each body xs s1 = Some s2" "fills s2 = fills s1 @ concat (map ev xs)"
    by auto
  show ?case
    using s1 s2 by simp
qed

lemma pair_step_fills:
  assumes "i1 < length P" "i3 < length K"
  shows "\<exists>s'. pair_step L m (vectors_of db L P K) i1 i3 s = Some s' \<and>
              fills s' = fills s @ se_pair_events db L m (P ! i1) (K ! i3)"
  using assms
  by (simp add: pair_step_def vectors_of_def vector_at_def se_pair_events_def
        pair_vector_def mass_fill_def Let_def)

lemma nth_concat_map: "concat (map (\<lambda>i. f (xs ! i)) [0 ..< length xs]) = concat (map f xs)"
proof -
  have "map (\<lambda>i. f (xs ! i)) [0 ..< length xs] = map f (map ((!) xs) [0 ..< length xs])"
    by simp
  also have "\<dots> = map f xs"
    by (simp only: map_nth)
  finally show ?thesis by simp
qed

lemma inner_loop_fills:
  assumes "i1 < length P"
  shows "\<exists>s'. for_each (\<lambda>i3. pair_step L m (vectors_of db L P K) i1 i3) [0 ..< length K] s = Some s' \<and>
              fills s' = fills s @ concat (map (se_pair_events db L m (P ! i1)) K)"
proof -
  have "\<exists>s'. for_each (\<lambda>i3. pair_step L m (vectors_of db L P K) i1 i3) [0 ..< length K] s = Some s' \<and>
              fills s' = fills s @
                concat (map (\<lambda>i3. se_pair_events db L m (P ! i1) (K ! i3)) [0 ..< length K])"
    by (rule for_each_fills) (simp add: pair_step_fills assms)
  then show ?thesis
    by (simp only: nth_concat_map)
qed

lemma pair_loops_fills:
  "\<exists>s'. for_each (\<lambda>i1. for_each (\<lambda>i3. pair_step L m (vectors_of db L P K) i1 i3) [0 ..< length K])
           [0 ..< length P] s = Some s' \<and>
        fills s' = fills s @ concat (map (\<lambda>t. concat (map (se_pair_events db L m t) K)) P)"
proof -
  have "\<exists>s'. for_each (\<lambda>i1. for_each (\<lambda>i3. pair_step L m (vectors_of db L P K) i1 i3) [0 ..< length K])
           [0 ..< length P] s = Some s' \<and>
        fills s' = fills s @
          concat (map (\<lambda>i1. concat (map (se_pair_events db L m (P ! i1)) K)) [0 ..< length P])"
    by (rule for_each_fills) (simp add: inner_loop_fills)
  then show ?thesis
    using nth_concat_map [of "\<lambda>t. concat (map (se_pair_events db L m t) K)" P] by simp
qed

lemma scans_vectors:
  "fold (v0_step db L cfg collision m) V0s
     (fold (track_step db L cfg) tracks (no_vectors, s)) =
   (vectors_of db L (se_pions cfg tracks) (se_kshorts db cfg collision V0s),
    s\<lparr>fills := fills s @ concat (map (track_events cfg) tracks) @
          concat (map (\<lambda>v. if daughters_selected cfg v
                            then v0_events db cfg collision m v else []) V0s)\<rparr>)"
  by (simp add: track_loop v0_loop no_vectors_def vectors_of_def)

lemma concat_map_Nil: "concat (map (\<lambda>t. []) P) = []"
  by (induction P) simp_all

lemma processSE_run:
  assumes "sel8 collision"
  shows "\<exists>s'. processSE db L cfg collision tracks V0s s = Some s' \<and>
              fills s' = fills s @ se_events db L cfg collision tracks V0s"
proof -
  let ?m = "event_multiplicity cfg collision"
  let ?P = "se_pions cfg tracks"
  let ?K = "se_kshorts db cfg collision V0s"
  let ?s1 = "s\<lparr>fills := fills s @
                 [Fill rEventSelection ''hVertexZRec'' [posZ collision],
                  Fill rEventSelection ''hmult'' [?m]]\<rparr>"
  let ?s3 = "?s1\<lparr>fills := fills ?s1 @ concat (map (track_events cfg) tracks) @
          concat (map (\<lambda>v. if daughters_selected cfg v
                            then v0_events db cfg collision ?m v else []) V0s)\<rparr>"
  let ?pairs = "concat (map (\<lambda>t. concat (map (se_pair_events db L ?m t) ?K)) ?P)"
  have scans: "fold (v0_step db L cfg collision ?m) V0s
     (fold (track_step db L cfg) tracks (no_vectors, ?s1)) = (vectors_of db L ?P ?K, ?s3)"
    by (rule scans_vectors)
  have run: "processSE db L cfg collision tracks V0s s =
     (if ?P \<noteq> [] \<and> ?K \<noteq> [] then
        for_each (\<lambda>i1. for_each (\<lambda>i3. pair_step L ?m (vectors_of db L ?P ?K) i1 i3)
                          [0 ..< length ?K]) [0 ..< length ?P] ?s3
      else Some ?s3)"
    using assms
    by (simp add: processSE_def Let_def scans_vectors vectors_of_def)
  have f3: "fills ?s3 @ ?pairs = fills s @ se_events db L cfg collision tracks V0s"
    by (simp add: se_events_def)
  show ?thesis
  proof (cases "?P \<noteq> [] \<and> ?K \<noteq> []")
    case True
    obtain s' where
      "for_each (\<lambda>i1. for_each (\<lambda>i3. pair_step L ?m (vectors_of db L ?P ?K) i1 i3)
                          [0 ..< length ?K]) [0 ..< length ?P] ?s3 = Some s'"
      "fills s' = fills ?s3 @ ?pairs"
      using pair_loops_fills [of L ?m db ?P ?K ?s3] by blast
    then show ?thesis
      using True run f3 by simp
  next
    case False
    then have "?pairs = []"
      by (auto simp: concat_map_Nil)
    then have "fills ?s3 = fills s @ se_events db L cfg collision tracks V0s"
      using f3 by (simp only: append_Nil2)
    then show ?thesis
      using False run by auto
  qed
qed

lemma fills_named_Nil [simp]: "fills_named n [] = []"
  by (simp add: fills_named_def)

lemma fills_named_append [simp]:
  "fills_named n (xs @ ys) = fills_named n xs @ fills_named n ys"
  by (simp add: fills_named_def)

lemma fills_named_concat:
  "fills_named n (concat xss) = concat (map (fills_named n) xss)"
  by (induction xss) simp_all

lemma concat_map_Nil': "(\<And>x. f x = []) \<Longrightarrow> concat (map f xs) = []"
  by (induction xs) simp_all

lemma track_events_not_mass:
  "fills_named ''h3CKSInvMassUnlikeSign'' (track_events cfg t) = []"
  by (simp add: fills_named_def track_events_def)

lemma v0_events_not_mass:
  "fills_named ''h3CKSInvMassUnlikeSign'' (v0_events db cfg c m v) = []"
  by (simp add: fills_named_def v0_events_def)

lemma se_pair_events_mass:
  "fills_named ''h3CKSInvMassUnlikeSign'' (se_pair_events db L m t v) = se_pair_events db L m t v"
  by (simp add: fills_named_def se_pair_events_def mass_fill_def)

lemma se_pair_events_emitted:
  "concat (map (\<lambda>t. concat (map (se_pair_events db L m t) K)) P) =
   map (\<lambda>(t, v). mass_fill ''h3CKSInvMassUnlikeSign'' L m (pair_vector db L t v))
     [(t, v). t \<leftarrow> P, v \<leftarrow> K,
              globalIndex t \<noteq> globalIndex (posTrack v),
              globalIndex t \<noteq> globalIndex (negTrack v),
              track.collisionId t = v0.collisionId v,
              fl_less (fl_abs (Rapidity L (pair_vector db L t v))) (Fin 0.5)]"
proof -
  have inner: "\<And>t. concat (map (se_pair_events db L m t) K) =
    map (\<lambda>(t, v). mass_fill ''h3CKSInvMassUnlikeSign'' L m (pair_vector db L t v))
     [(t, v). v \<leftarrow> K,
              globalIndex t \<noteq> globalIndex (posTrack v),
              globalIndex t \<noteq> globalIndex (negTrack v),
              track.collisionId t = v0.collisionId v,
              fl_less (fl_abs (Rapidity L (pair_vector db L t v))) (Fin 0.5)]"
    by (induction K) (simp_all add: se_pair_events_def)
  show ?thesis
    by (induction P) (simp_all add: inner)
qed

lemma se_events_mass:
  "sel8 collision \<Longrightarrow>
   fills_named ''h3CKSInvMassUnlikeSign'' (se_events db L cfg collision tracks V0s) =
   map (\<lambda>(t, v). mass_fill ''h3CKSInvMassUnlikeSign'' L (event_multiplicity cfg collision)
                   (pair_vector db L t v))
     (se_emitted_pairs db L cfg collision tracks V0s)"
proof -
  assume sel: "sel8 collision"
  let ?m = "event_multiplicity cfg collision"
  have a: "fills_named ''h3CKSInvMassUnlikeSign''
             [Fill rEventSelection ''hVertexZRec'' [posZ collision],
              Fill rEventSelection ''hmult'' [?m]] = []"
    by (simp add: fills_named_def)
  have b: "fills_named ''h3CKSInvMassUnlikeSign'' (concat (map (track_events cfg) tracks)) = []"
    by (simp add: fills_named_concat comp_def track_events_not_mass concat_map_Nil)
  have c: "fills_named ''h3CKSInvMassUnlikeSign''
             (concat (map (\<lambda>v. if daughters_selected cfg v
                       then v0_events db cfg collision ?m v else []) V0s)) = []"
    by (rule trans [OF fills_named_concat])
       (simp add: comp_def concat_map_Nil' v0_events_not_mass)
  have d: "fills_named ''h3CKSInvMassUnlikeSign''
             (concat (map (\<lambda>t. concat (map (se_pair_events db L ?m t)
                                 (se_kshorts db cfg collision V0s))) (se_pions cfg tracks))) =
           concat (map (\<lambda>t. concat (map (se_pair_events db L ?m t)
                                 (se_kshorts db cfg collision V0s))) (se_pions cfg tracks))"
    by (simp add: fills_named_concat comp_def se_pair_events_mass)
  show ?thesis
    unfolding se_events_def fills_named_append a b c d
    using sel by (simp add: se_pair_events_emitted se_emitted_pairs_def)
qed

section \<open>The mixed-event engine\<close>

lemma mixed_step_eq:
  "mixed_step db T cfg c2 m x s = s\<lparr>fills := fills s @ me_pair_events db T cfg c2 m x\<rparr>"
  by (cases x)
     (simp add: mixed_step_def me_pair_events_def SelectionV0_eq daughters_selected_def
        pair_vector_def pion_vector_def kshort_vector_def mass_fill_def v0_events_def Let_def)

lemma fold_fills:
  assumes "\<And>x s. step x s = s\<lparr>fills := fills s @ ev x\<rparr>"
  shows "fold step xs s = s\<lparr>fills := fills s @ concat (map ev xs)\<rparr>"
  by (induction xs arbitrary: s) (simp_all add: assms)

lemma mixed_event_step_eq:
  "mixed_event_step db T cfg x s = s\<lparr>fills := fills s @ me_events db T cfg x\<rparr>"
proof (cases x)
  case (fields c1 tracks1 c2 tracks2)
  have "fold (mixed_step db T cfg c2 (event_multiplicity cfg c1))
          (combinations_full tracks1 tracks2) s =
        s\<lparr>fills := fills s @
             concat (map (me_pair_events db T cfg c2 (event_multiplicity cfg c1))
                       (combinations_full tracks1 tracks2))\<rparr>"
    by (rule fold_fills) (rule mixed_step_eq)
  then show ?thesis
    using fields by (simp add: mixed_event_step_def me_events_def Let_def)
qed

lemma processME_eq:
  "processME db T cfg pair s = s\<lparr>fills := fills s @ concat (map (me_events db T cfg) pair)\<rparr>"
  unfolding processME_def by (rule fold_fills) (rule mixed_event_step_eq)

lemma v0_events_not_mixed:
  "fills_named ''h3CKSInvMassMixed'' (v0_events db cfg c m v) = []"
  by (simp add: fills_named_def v0_events_def)

lemma me_pair_events_mixed:
  "fills_named ''h3CKSInvMassMixed'' (me_pair_events db T cfg c2 m (t1, t2)) =
     (if selectionTrack cfg t1 \<and> selectionPID cfg t1 \<and> V0_accepted db cfg c2 t2 \<and>
         daughters_selected cfg t2 \<and>
         fl_less (fl_abs (Rapidity T (pair_vector db T t1 t2))) (Fin 0.5)
      then [mass_fill ''h3CKSInvMassMixed'' T m (pair_vector db T t1 t2)] else [])"
  by (simp add: me_pair_events_def v0_events_not_mixed)
     (simp add: fills_named_def mass_fill_def)

lemma me_combinations_mixed:
  "fills_named ''h3CKSInvMassMixed''
     (concat (map (me_pair_events db T cfg c2 m) (combinations_full tracks1 tracks2))) =
   map (\<lambda>(m, t1, t2). mass_fill ''h3CKSInvMassMixed'' T m (pair_vector db T t1 t2))
     [(m, t1, t2). t1 \<leftarrow> tracks1, t2 \<leftarrow> tracks2,
        selectionTrack cfg t1, selectionPID cfg t1, V0_accepted db cfg c2 t2,
        daughters_selected cfg t2,
        fl_less (fl_abs (Rapidity T (pair_vector db T t1 t2))) (Fin 0.5)]"
proof -
  have inner: "\<And>t1. fills_named ''h3CKSInvMassMixed''
       (concat (map (me_pair_events db T cfg c2 m \<circ> Pair t1) tracks2)) =
     map (\<lambda>(m, t1, t2). mass_fill ''h3CKSInvMassMixed'' T m (pair_vector db T t1 t2))
       [(m, t1, t2). t2 \<leftarrow> tracks2,
          selectionTrack cfg t1, selectionPID cfg t1, V0_accepted db cfg c2 t2,
          daughters_selected cfg t2,
          fl_less (fl_abs (Rapidity T (pair_vector db T t1 t2))) (Fin 0.5)]"
    by (induction tracks2) (simp_all add: me_pair_events_mixed)
  show ?thesis
    unfolding combinations_full_def
    by (induction tracks1) (simp_all add: inner)
qed

lemma me_events_mixed:
  "fills_named ''h3CKSInvMassMixed'' (concat (map (me_events db T cfg) pair)) =
   map (\<lambda>(m, t1, t2). mass_fill ''h3CKSInvMassMixed'' T m (pair_vector db T t1 t2))
     (me_emitted_pairs db T cfg pair)"
proof (induction pair)
  case Nil
  show ?case by (simp add: me_emitted_pairs_def)
next
  case (Cons x pair)
  obtain c1 tracks1 c2 tracks2 where x: "x = (c1, tracks1, c2, tracks2)"
    by (cases x)
  have "fills_named ''h3CKSInvMassMixed'' (me_events db T cfg x) =
        map (\<lambda>(m, t1, t2). mass_fill ''h3CKSInvMassMixed'' T m (pair_vector db T t1 t2))
          (me_emitted_pairs db T cfg [x])"
    using me_combinations_mixed [of db T cfg c2 "event_multiplicity cfg c1" tracks1 tracks2]
    by (simp add: x me_events_def me_emitted_pairs_def)
  moreover have "me_emitted_pairs db T cfg (x # pair) =
                 me_emitted_pairs db T cfg [x] @ me_emitted_pairs db T cfg pair"
    by (simp add: me_emitted_pairs_def)
  ultimately show ?case
    using Cons.IH by simp
qed

lemma new_fills_append: "fills s' = fills s @ evs \<Longrightarrow> new_fills s s' = evs"
  by (simp add: new_fills_def)

lemma processSE_skip: "\<not> sel8 collision \<Longrightarrow> processSE db L cfg collision tracks V0s s = Some s"
  by (simp add: processSE_def)

lemma processSE_mass_fills:
  "\<exists>s'. processSE db L cfg collision tracks V0s s = Some s' \<and>
        fills_named ''h3CKSInvMassUnlikeSign'' (new_fills s s') =
          map (\<lambda>(t, v). mass_fill ''h3CKSInvMassUnlikeSign'' L
                          (event_multiplicity cfg collision) (pair_vector db L t v))
            (se_emitted_pairs db L cfg collision tracks V0s)"
proof (cases "sel8 collision")
  case True
  then obtain s' where
    s': "processSE db L cfg collision tracks V0s s = Some s'"
        "fills s' = fills s @ se_events db L cfg collision tracks V0s"
    using processSE_run by blast
  from s'(2) have "new_fills s s' = se_events db L cfg collision tracks V0s"
    by (rule new_fills_append)
  then show ?thesis
    using s'(1) se_events_mass [OF True] by simp
next
  case False
  then show ?thesis
    by (simp add: processSE_skip se_emitted_pairs_def new_fills_def)
qed

lemma se_emitted_pairs_iff:
  "(t, v) \<in> set (se_emitted_pairs db L cfg collision tracks V0s) \<longleftrightarrow>
     sel8 collision \<and> t \<in> set (se_pions cfg tracks) \<and>
     v \<in> set (se_kshorts db cfg collision V0s) \<and>
     globalIndex t \<noteq> globalIndex (posTrack v) \<and>
     globalIndex t \<noteq> globalIndex (negTrack v) \<and>
     track.collisionId t = v0.collisionId v \<and>
     fl_less (fl_abs (Rapidity L (pair_vector db L t v))) (Fin 0.5)"
  by (auto simp: se_emitted_pairs_def)

lemma me_emitted_pairs_rapidity:
  "(m, t1, t2) \<in> set (me_emitted_pairs db T cfg pair) \<Longrightarrow>
     fl_less (fl_abs (Rapidity T (pair_vector db T t1 t2))) (Fin 0.5)"
  by (auto simp: me_emitted_pairs_def split: if_splits)

lemmas engine_defs =
  se_emitted_pairs_def me_emitted_pairs_def se_pions_def se_kshorts_def daughters_selected_def
  V0_accepted_def selectionPID_def selectionTrack_def isSelectedV0Daughter_def
  pair_vector_def pion_vector_def kshort_vector_def sample_lorentz_def sample_state_def
  massPi_def massK0s_def event_multiplicity_def mass_fill_def

lemma sample_se_pairs:
  "se_emitted_pairs pdg_values sample_lorentz default_config example_collision
     [example_track, example_track_forward] [example_v0_shared, example_v0] =
   [(example_track, example_v0)]"
  by (simp add: engine_defs example_defs example_v0_shared_def example_track_forward_def
        fl_defs Let_def)

lemma sample_me_pairs:
  "me_emitted_pairs pdg_values sample_lorentz default_config
     [(example_collision, [example_track, example_track_forward],
       collision_B, [example_v0])] =
   [(Fin 30, example_track, example_v0)]"
  by (simp add: engine_defs example_defs example_track_forward_def collision_B_def fl_defs)

section \<open>The engines: statements\<close>

text \<open>
  C5. For a collision whose \<open>sel8\<close> flag is false, \<open>processSE\<close> returns with the
  state as it was: no event counter, no monitoring histogram and no mass histogram is
  filled.
\<close>

theorem processSE_skips_without_sel8:
  "\<not> sel8 collision \<Longrightarrow>
     processSE db L cfg collision tracks V0s s = Some s \<and> new_fills s s = []"
  by (simp add: processSE_skip new_fills_def)

text \<open>The sample collision with the flag cleared, with a pion candidate and a V0.\<close>

theorem processSE_skips_without_sel8_witness:
  "\<not> sel8 (example_collision\<lparr>sel8 := False\<rparr>) \<and>
   processSE pdg_values sample_lorentz default_config (example_collision\<lparr>sel8 := False\<rparr>)
     [example_track] [example_v0] sample_state = Some sample_state"
proof -
  have h: "\<not> sel8 (example_collision\<lparr>sel8 := False\<rparr>)"
    by simp
  show ?thesis
    using h processSE_skips_without_sel8 [OF h, of pdg_values sample_lorentz default_config
        "[example_track]" "[example_v0]" sample_state]
    by simp
qed

text \<open>
  C9. The fills that a run of \<open>processSE\<close> adds depend on the collision, the tracks and
  the V0s only: whatever the registries and \<open>CKSVector\<close> hold before the run, the run
  returns and appends the same sequence of fills. So a second run on the same input adds
  the same sequence as the first.
\<close>

theorem processSE_deterministic:
  "\<exists>evs. \<forall>s. \<exists>s'. processSE db L cfg collision tracks V0s s = Some s' \<and>
                   fills s' = fills s @ evs \<and> new_fills s s' = evs"
proof (cases "sel8 collision")
  case True
  have "\<exists>s'. processSE db L cfg collision tracks V0s s = Some s' \<and>
             fills s' = fills s @ se_events db L cfg collision tracks V0s \<and>
             new_fills s s' = se_events db L cfg collision tracks V0s" for s
    using processSE_run [OF True, of db L cfg tracks V0s s] by (auto simp: new_fills_def)
  then show ?thesis by blast
next
  case False
  then have "\<exists>s'. processSE db L cfg collision tracks V0s s = Some s' \<and>
             fills s' = fills s @ [] \<and> new_fills s s' = []" for s
    by (simp add: processSE_skip new_fills_def)
  then show ?thesis by blast
qed

text \<open>Two runs in a row on the sample rows: the second adds what the first has added.\<close>

theorem processSE_deterministic_witness:
  "\<exists>evs s1 s2.
     processSE pdg_values sample_lorentz default_config example_collision
       [example_track] [example_v0] sample_state = Some s1 \<and> fills s1 = evs \<and>
     processSE pdg_values sample_lorentz default_config example_collision
       [example_track] [example_v0] s1 = Some s2 \<and> fills s2 = evs @ evs"
proof -
  obtain evs where evs: "\<And>s. \<exists>s'. processSE pdg_values sample_lorentz default_config
       example_collision [example_track] [example_v0] s = Some s' \<and>
       fills s' = fills s @ evs \<and> new_fills s s' = evs"
    using processSE_deterministic [of pdg_values sample_lorentz default_config
        example_collision "[example_track]" "[example_v0]"]
    by blast
  obtain s1 where s1: "processSE pdg_values sample_lorentz default_config
       example_collision [example_track] [example_v0] sample_state = Some s1"
       "fills s1 = fills sample_state @ evs"
    using evs [of sample_state] by blast
  obtain s2 where s2: "processSE pdg_values sample_lorentz default_config
       example_collision [example_track] [example_v0] s1 = Some s2"
       "fills s2 = fills s1 @ evs"
    using evs [of s1] by blast
  have "fills sample_state = []"
    by (simp add: sample_state_def)
  then show ?thesis
    using s1 s2 by simp
qed

text \<open>
  C4. The fills of the histogram \<open>h3CKSInvMassUnlikeSign\<close> that a run of \<open>processSE\<close>
  adds are those of the emitted pairs, in the order of the loops. In every emitted pair
  the global index of the pion differs from the global indices of both daughters of the
  composite. A pair is emitted exactly when the pion and the composite are kept by the
  scans, share no index and no collision mismatch, and the rapidity passes; so a pion that
  is skipped with one composite is still paired with the others.
\<close>

theorem processSE_no_shared_daughter:
  "(\<exists>s'. processSE db L cfg collision tracks V0s s = Some s' \<and>
         fills_named ''h3CKSInvMassUnlikeSign'' (new_fills s s') =
           map (\<lambda>(t, v). mass_fill ''h3CKSInvMassUnlikeSign'' L
                           (event_multiplicity cfg collision) (pair_vector db L t v))
             (se_emitted_pairs db L cfg collision tracks V0s)) \<and>
   (\<forall>(t, v) \<in> set (se_emitted_pairs db L cfg collision tracks V0s).
      t \<in> set tracks \<and> v \<in> set V0s \<and>
      globalIndex t \<noteq> globalIndex (posTrack v) \<and>
      globalIndex t \<noteq> globalIndex (negTrack v)) \<and>
   (\<forall>t v. (t, v) \<in> set (se_emitted_pairs db L cfg collision tracks V0s) \<longleftrightarrow>
      sel8 collision \<and> t \<in> set (se_pions cfg tracks) \<and>
      v \<in> set (se_kshorts db cfg collision V0s) \<and>
      globalIndex t \<noteq> globalIndex (posTrack v) \<and>
      globalIndex t \<noteq> globalIndex (negTrack v) \<and>
      track.collisionId t = v0.collisionId v \<and>
      fl_less (fl_abs (Rapidity L (pair_vector db L t v))) (Fin 0.5))"
proof (intro conjI)
  show "\<exists>s'. processSE db L cfg collision tracks V0s s = Some s' \<and>
         fills_named ''h3CKSInvMassUnlikeSign'' (new_fills s s') =
           map (\<lambda>(t, v). mass_fill ''h3CKSInvMassUnlikeSign'' L
                           (event_multiplicity cfg collision) (pair_vector db L t v))
             (se_emitted_pairs db L cfg collision tracks V0s)"
    by (rule processSE_mass_fills)
  show "\<forall>(t, v) \<in> set (se_emitted_pairs db L cfg collision tracks V0s).
      t \<in> set tracks \<and> v \<in> set V0s \<and>
      globalIndex t \<noteq> globalIndex (posTrack v) \<and>
      globalIndex t \<noteq> globalIndex (negTrack v)"
    by (auto simp: se_emitted_pairs_iff se_pions_def se_kshorts_def)
  show "\<forall>t v. (t, v) \<in> set (se_emitted_pairs db L cfg collision tracks V0s) \<longleftrightarrow>
      sel8 collision \<and> t \<in> set (se_pions cfg tracks) \<and>
      v \<in> set (se_kshorts db cfg collision V0s) \<and>
      globalIndex t \<noteq> globalIndex (posTrack v) \<and>
      globalIndex t \<noteq> globalIndex (negTrack v) \<and>
      track.collisionId t = v0.collisionId v \<and>
      fl_less (fl_abs (Rapidity L (pair_vector db L t v))) (Fin 0.5)"
    by (simp add: se_emitted_pairs_iff)
qed

text \<open>
  The sample pion is the positive daughter of the first composite and not a daughter of
  the second: only the pair with the second composite is filled.
\<close>

theorem processSE_no_shared_daughter_witness:
  "globalIndex example_track = globalIndex (posTrack example_v0_shared) \<and>
   se_emitted_pairs pdg_values sample_lorentz default_config example_collision
     [example_track, example_track_forward] [example_v0_shared, example_v0] =
     [(example_track, example_v0)] \<and>
   (\<exists>s'. processSE pdg_values sample_lorentz default_config example_collision
           [example_track, example_track_forward] [example_v0_shared, example_v0]
           sample_state = Some s' \<and>
         fills_named ''h3CKSInvMassUnlikeSign'' (new_fills sample_state s') =
           [mass_fill ''h3CKSInvMassUnlikeSign'' sample_lorentz (Fin 30)
              (pair_vector pdg_values sample_lorentz example_track example_v0)])"
proof -
  have m: "event_multiplicity default_config example_collision = Fin 30"
    by (simp add: event_multiplicity_def example_defs)
  have i: "globalIndex example_track = globalIndex (posTrack example_v0_shared)"
    by (simp add: example_v0_shared_def example_defs)
  show ?thesis
    using i processSE_no_shared_daughter [of pdg_values sample_lorentz default_config
        example_collision "[example_track, example_track_forward]"
        "[example_v0_shared, example_v0]" sample_state]
    by (simp add: sample_se_pairs m)
qed

text \<open>
  C3. The mass fills that \<open>processSE\<close> and \<open>processME\<close> add are those of the emitted
  pairs, and for every emitted pair the absolute rapidity of the summed four-vector is
  below 0.5, hence not greater than or equal to 0.5.
\<close>

theorem mass_fills_rapidity_gate:
  "(\<exists>s'. processSE db L cfg collision tracks V0s s = Some s' \<and>
         fills_named ''h3CKSInvMassUnlikeSign'' (new_fills s s') =
           map (\<lambda>(t, v). mass_fill ''h3CKSInvMassUnlikeSign'' L
                           (event_multiplicity cfg collision) (pair_vector db L t v))
             (se_emitted_pairs db L cfg collision tracks V0s)) \<and>
   (\<forall>(t, v) \<in> set (se_emitted_pairs db L cfg collision tracks V0s).
      fl_less (fl_abs (Rapidity L (pair_vector db L t v))) (Fin 0.5) \<and>
      \<not> fl_ge (fl_abs (Rapidity L (pair_vector db L t v))) (Fin 0.5)) \<and>
   fills_named ''h3CKSInvMassMixed'' (new_fills s (processME db T cfg pair s)) =
     map (\<lambda>(m, t1, t2). mass_fill ''h3CKSInvMassMixed'' T m (pair_vector db T t1 t2))
       (me_emitted_pairs db T cfg pair) \<and>
   (\<forall>(m, t1, t2) \<in> set (me_emitted_pairs db T cfg pair).
      fl_less (fl_abs (Rapidity T (pair_vector db T t1 t2))) (Fin 0.5) \<and>
      \<not> fl_ge (fl_abs (Rapidity T (pair_vector db T t1 t2))) (Fin 0.5))"
proof (intro conjI)
  show "\<exists>s'. processSE db L cfg collision tracks V0s s = Some s' \<and>
         fills_named ''h3CKSInvMassUnlikeSign'' (new_fills s s') =
           map (\<lambda>(t, v). mass_fill ''h3CKSInvMassUnlikeSign'' L
                           (event_multiplicity cfg collision) (pair_vector db L t v))
             (se_emitted_pairs db L cfg collision tracks V0s)"
    by (rule processSE_mass_fills)
  show "\<forall>(t, v) \<in> set (se_emitted_pairs db L cfg collision tracks V0s).
      fl_less (fl_abs (Rapidity L (pair_vector db L t v))) (Fin 0.5) \<and>
      \<not> fl_ge (fl_abs (Rapidity L (pair_vector db L t v))) (Fin 0.5)"
  proof clarify
    fix t v
    assume "(t, v) \<in> set (se_emitted_pairs db L cfg collision tracks V0s)"
    then have l: "fl_less (fl_abs (Rapidity L (pair_vector db L t v))) (Fin 0.5)"
      by (simp add: se_emitted_pairs_iff)
    show "fl_less (fl_abs (Rapidity L (pair_vector db L t v))) (Fin 0.5) \<and>
      \<not> fl_ge (fl_abs (Rapidity L (pair_vector db L t v))) (Fin 0.5)"
      using l fl_less_not_ge [OF l] by simp
  qed
  show "fills_named ''h3CKSInvMassMixed'' (new_fills s (processME db T cfg pair s)) =
     map (\<lambda>(m, t1, t2). mass_fill ''h3CKSInvMassMixed'' T m (pair_vector db T t1 t2))
       (me_emitted_pairs db T cfg pair)"
    by (simp add: processME_eq new_fills_def me_events_mixed)
  show "\<forall>(m, t1, t2) \<in> set (me_emitted_pairs db T cfg pair).
      fl_less (fl_abs (Rapidity T (pair_vector db T t1 t2))) (Fin 0.5) \<and>
      \<not> fl_ge (fl_abs (Rapidity T (pair_vector db T t1 t2))) (Fin 0.5)"
  proof clarify
    fix m t1 t2
    assume "(m, t1, t2) \<in> set (me_emitted_pairs db T cfg pair)"
    then have l: "fl_less (fl_abs (Rapidity T (pair_vector db T t1 t2))) (Fin 0.5)"
      by (rule me_emitted_pairs_rapidity)
    show "fl_less (fl_abs (Rapidity T (pair_vector db T t1 t2))) (Fin 0.5) \<and>
      \<not> fl_ge (fl_abs (Rapidity T (pair_vector db T t1 t2))) (Fin 0.5)"
      using l fl_less_not_ge [OF l] by simp
  qed
qed

text \<open>
  On the sample rows the pion at pseudorapidity 0.125 is filled with the composite, in the
  same event and in the mixed event; the pion at 0.75, whose sum has rapidity 1, is not.
\<close>

theorem mass_fills_rapidity_gate_witness:
  "se_emitted_pairs pdg_values sample_lorentz default_config example_collision
     [example_track, example_track_forward] [example_v0_shared, example_v0] =
     [(example_track, example_v0)] \<and>
   \<not> fl_ge (fl_abs (Rapidity sample_lorentz
              (pair_vector pdg_values sample_lorentz example_track example_v0))) (Fin 0.5) \<and>
   fl_ge (fl_abs (Rapidity sample_lorentz
            (pair_vector pdg_values sample_lorentz example_track_forward example_v0))) (Fin 0.5) \<and>
   fills_named ''h3CKSInvMassMixed''
     (new_fills sample_state
        (processME pdg_values sample_lorentz default_config
           [(example_collision, [example_track, example_track_forward],
             collision_B, [example_v0])] sample_state)) =
     [mass_fill ''h3CKSInvMassMixed'' sample_lorentz (Fin 30)
        (pair_vector pdg_values sample_lorentz example_track example_v0)]"
proof -
  have f: "fl_ge (fl_abs (Rapidity sample_lorentz
            (pair_vector pdg_values sample_lorentz example_track_forward example_v0))) (Fin 0.5)"
    by (simp add: engine_defs example_defs example_track_forward_def fl_defs)
  show ?thesis
    using f mass_fills_rapidity_gate [of pdg_values sample_lorentz default_config
        example_collision "[example_track, example_track_forward]"
        "[example_v0_shared, example_v0]" sample_state sample_lorentz
        "[(example_collision, [example_track, example_track_forward],
             collision_B, [example_v0])]"]
    by (simp add: sample_se_pairs sample_me_pairs)
qed

section \<open>The pair generator: statement\<close>

lemma same_bin_pairs_key:
  "(c1, c2) \<in> set (same_bin_pairs av am n cs) \<Longrightarrow>
   \<exists>k. bin_key av am c1 = Some k \<and> bin_key av am c2 = Some k \<and>
       c1 \<in> set cs \<and> c2 \<in> set cs"
proof (induction cs)
  case Nil
  then show ?case by simp
next
  case (Cons c cs)
  show ?case
  proof (cases "(c1, c2) \<in> set (same_bin_pairs av am n cs)")
    case True
    then obtain k where "bin_key av am c1 = Some k" "bin_key av am c2 = Some k"
      "c1 \<in> set cs" "c2 \<in> set cs"
      using Cons.IH by blast
    then show ?thesis by auto
  next
    case False
    with Cons.prems have prem:
      "(c1, c2) \<in> set (case bin_key av am c of None \<Rightarrow> []
          | Some k \<Rightarrow> map (Pair c) (take n (filter (\<lambda>c2. bin_key av am c2 = Some k) cs)))"
      by simp
    show ?thesis
    proof (cases "bin_key av am c")
      case None
      with prem show ?thesis by simp
    next
      case (Some k)
      with prem have c1: "c1 = c"
        and c2: "c2 \<in> set (take n (filter (\<lambda>c2. bin_key av am c2 = Some k) cs))"
        by auto
      from c2 have "c2 \<in> set (filter (\<lambda>c2. bin_key av am c2 = Some k) cs)"
        by (rule in_set_takeD)
      then have "bin_key av am c2 = Some k" "c2 \<in> set cs"
        by simp_all
      then show ?thesis
        using Some c1 by auto
    qed
  qed
qed

text \<open>
  C8. Every tuple that the pair generator supplies to the loop of \<open>processME\<close> holds two
  collisions of the list with the same bin key, the pair of the bucket of the vertex
  z-position and the bucket of the multiplicity estimator.
\<close>

theorem mixed_pairs_same_bin:
  "\<forall>(c1, tracks1, c2, tracks2) \<in> set (pair_generator av am cfg tracks_of V0s_of collisions).
     bin_key av am c1 = bin_key av am c2 \<and> bin_key av am c1 \<noteq> None \<and>
     c1 \<in> set collisions \<and> c2 \<in> set collisions"
proof -
  have "bin_key av am c1 = bin_key av am c2 \<and> bin_key av am c1 \<noteq> None \<and>
        c1 \<in> set collisions \<and> c2 \<in> set collisions"
    if h: "(c1, c2) \<in> set (same_bin_pairs av am (nat (cfgNoMixedEvents cfg)) collisions)"
    for c1 c2
  proof -
    obtain k where "bin_key av am c1 = Some k" "bin_key av am c2 = Some k"
      "c1 \<in> set collisions" "c2 \<in> set collisions"
      using same_bin_pairs_key [OF h] by blast
    then show ?thesis by simp
  qed
  then show ?thesis
    unfolding pair_generator_def by fastforce
qed

text \<open>
  Three collisions, the first and the third in one bin: they are supplied as a pair. The
  second lies in another vertex bucket.
\<close>

theorem mixed_pairs_same_bin_witness:
  "(collision_A, [], collision_B, []) \<in>
     set (pair_generator axisVertex axisMultiplicity default_config (\<lambda>c. []) (\<lambda>c. [])
            [collision_A, collision_C, collision_B]) \<and>
   bin_key axisVertex axisMultiplicity collision_A =
     bin_key axisVertex axisMultiplicity collision_B \<and>
   bin_key axisVertex axisMultiplicity collision_A \<noteq>
     bin_key axisVertex axisMultiplicity collision_C"
proof -
  have m: "(collision_A, [], collision_B, []) \<in>
     set (pair_generator axisVertex axisMultiplicity default_config (\<lambda>c. []) (\<lambda>c. [])
            [collision_A, collision_C, collision_B])"
    by (simp add: pair_generator_def bin_key_def bucket_def axisVertex_def axisMultiplicity_def
      collision_A_def collision_B_def collision_C_def example_defs fl_defs)
  have c: "bin_key axisVertex axisMultiplicity collision_A \<noteq>
     bin_key axisVertex axisMultiplicity collision_C"
    by (simp add: bin_key_def bucket_def axisVertex_def axisMultiplicity_def
      collision_A_def collision_C_def example_defs fl_defs)
  show ?thesis
    using m c mixed_pairs_same_bin [of axisVertex axisMultiplicity default_config
        "\<lambda>c. []" "\<lambda>c. []" "[collision_A, collision_C, collision_B]"]
    by blast
qed

end
